theory Spec2Isabelle
  imports Main
begin

section \<open>Values, errors and result records\<close>

text \<open>
  A shallow embedding of \<^verbatim>\<open>salesforce_api/services/bulk.py\<close>. Python names are kept;
  a leading underscore is dropped (\<^verbatim>\<open>_create_job\<close> is \<open>create_job\<close>) and a method whose
  name clashes across classes or with HOL carries its class (\<^verbatim>\<open>Job.wait\<close> is \<open>Job_wait\<close>).

  A Python \<^verbatim>\<open>str\<close> is a \<open>string\<close>, one \<open>char\<close> per code point (code points below 256).
  The JSON values that the code reads and writes are scalars; a JSON object is an
  association list in the order of the dict, and \<^verbatim>\<open>None\<close> is \<open>JNull\<close>.
\<close>

datatype json = JNull | JBool bool | JNum int | JString string

type_synonym json_obj = "(string \<times> json) list"

text \<open>\<^verbatim>\<open>d.get(k)\<close>: the value, or \<^verbatim>\<open>None\<close> for a missing key.\<close>

definition dict_get :: "json_obj \<Rightarrow> string \<Rightarrow> json" where
  "dict_get d k = (case map_of d k of None \<Rightarrow> JNull | Some v \<Rightarrow> v)"

text \<open>\<^verbatim>\<open>x in xs\<close> for a list of string constants \<open>xs\<close>.\<close>

definition json_in :: "json \<Rightarrow> string list \<Rightarrow> bool" where
  "json_in x xs = (case x of JString s \<Rightarrow> s \<in> set xs | _ \<Rightarrow> False)"

text \<open>
  Every exception that the code raises or lets through is a value. \<open>TransportError\<close> stands
  for any exception of the HTTP layer other than the JSON parse error, \<open>CsvError\<close> for
  \<^verbatim>\<open>csv.Error\<close>, \<open>EncodingError\<close> for a failure of the CSV encoder.
\<close>

datatype error =
    NotImplementedError
  | JSONDecodeError
  | IndexError
  | TypeError
  | CsvError
  | EncodingError
  | TransportError string
  | BulkJobFailedError json

text \<open>
  Modelled from the spec: \<^verbatim>\<open>models.SuccessResultRecord\<close> and \<^verbatim>\<open>models.FailResultRecord\<close>
  (module \<^verbatim>\<open>models/bulk.py\<close> is not part of the sources). A success carries the record id,
  a failure the record id and the error message.
\<close>

datatype ResultRecord =
    SuccessResultRecord string
  | FailResultRecord string string

fun is_fail :: "ResultRecord \<Rightarrow> bool" where
  "is_fail (FailResultRecord i m) = True"
| "is_fail (SuccessResultRecord i) = False"

type_synonym entry = "(string \<times> string) list"

section \<open>The HTTP collaborator\<close>

datatype verb = GET | POST | PUT | PATCH | DELETE

record request =
  verb :: verb
  url :: string
  json_body :: "json_obj option"
  data :: "string option"
  headers :: "(string \<times> string) list"

text \<open>What the program does to the outside, in order: requests sent and sleeps taken.\<close>

datatype event = Request request | Sleep nat

text \<open>
  A response has its raw text and what \<^verbatim>\<open>.json()\<close> makes of it: \<open>None\<close> when the body is
  not JSON, which raises the JSON parse error.
\<close>

record response =
  body_text :: string
  body_json :: "json_obj option"

text \<open>
  The world is the trace so far and the remote platform, which answers a request from
  everything that happened before it: with a response, or with an exception raised by
  the transport.
\<close>

record world =
  trace :: "event list"
  remote :: "event list \<Rightarrow> request \<Rightarrow> error + response"

text \<open>
  The constants and collaborators of the modules \<^verbatim>\<open>const\<close>, \<open>config\<close> and
  \<^verbatim>\<open>utils/bulk.py\<close>, which are not part of the sources, are parameters:
  \<open>get_csv_string es\<close> is \<^verbatim>\<open>FilePreparer(es).get_csv_string()\<close>.
\<close>

record settings =
  BULK_STATE_UPLOAD_COMPLETE :: string
  BULK_STATES_DONE :: "string list"
  BULK_STATES_FAIL :: "string list"
  POLL_SLEEP_SECONDS :: nat
  get_csv_string :: "entry list \<Rightarrow> error + string"

text \<open>
  Modelled from the spec: the values of \<^verbatim>\<open>const\<close> as the spec gives them (terminal states
  JobComplete, Failed and Aborted, of which the last two are failures), a poll interval
  of five seconds, and the encoder of \<^verbatim>\<open>utils.bulk\<close>: it refuses an empty batch and otherwise
  writes CSV with the comma as delimiter and LF as line ending. The header row holds the
  keys of the first entry; each entry gives one row, its values under the columns of the
  header (an empty field for a key the entry lacks). A field holding a comma, a double
  quote, LF or CR is enclosed in double quotes with its double quotes doubled, and a row
  that is a single empty field is written as two double quotes, so that reading the text
  back as CSV gives the header and one row for each entry.
\<close>

definition csv_field :: "string \<Rightarrow> string" where
  "csv_field x =
     (if list_ex (\<lambda>c. c = CHR '','' \<or> c = CHR 0x22 \<or> c = CHR 0x0A \<or> c = CHR 0x0D) x
      then [CHR 0x22] @ concat (map (\<lambda>c. if c = CHR 0x22 then [CHR 0x22, CHR 0x22] else [c]) x)
             @ [CHR 0x22]
      else x)"

definition csv_line :: "string list \<Rightarrow> string" where
  "csv_line xs =
     (case xs of
        [] \<Rightarrow> []
      | y # ys \<Rightarrow>
          if y = [] \<and> ys = [] then [CHR 0x22, CHR 0x22]
          else foldl (\<lambda>a b. a @ '','' @ csv_field b) (csv_field y) ys) @ [CHR 0x0A]"

definition csv_cell :: "entry \<Rightarrow> string \<Rightarrow> string" where
  "csv_cell x k = (case map_of x k of None \<Rightarrow> [] | Some v \<Rightarrow> v)"

definition spec_get_csv_string :: "entry list \<Rightarrow> error + string" where
  "spec_get_csv_string es =
     (case es of
        [] \<Rightarrow> Inl EncodingError
      | e # _ \<Rightarrow>
          Inr (csv_line (map fst e) @
               concat (map (\<lambda>x. csv_line (map (csv_cell x) (map fst e))) es)))"

definition spec_settings :: settings where
  "spec_settings =
     \<lparr>BULK_STATE_UPLOAD_COMPLETE = ''UploadComplete'',
      BULK_STATES_DONE = [''JobComplete'', ''Failed'', ''Aborted''],
      BULK_STATES_FAIL = [''Failed'', ''Aborted''],
      POLL_SLEEP_SECONDS = 5,
      get_csv_string = spec_get_csv_string\<rparr>"

text \<open>
  Modelled from the spec: \<^verbatim>\<open>connection.request\<close> (the connection class is not part of the
  sources). The request is sent, the remote answers it from the trace so far, and the
  request is added to the trace.
\<close>

definition connection_request :: "request \<Rightarrow> world \<Rightarrow> (error + response) \<times> world" where
  "connection_request rq w = (remote w (trace w) rq, w\<lparr>trace := trace w @ [Request rq]\<rparr>)"

text \<open>\<^verbatim>\<open>time.sleep(n)\<close>.\<close>

definition sleep :: "nat \<Rightarrow> world \<Rightarrow> world" where
  "sleep n w = w\<lparr>trace := trace w @ [Sleep n]\<rparr>"

text \<open>
  Modelled from the spec: \<^verbatim>\<open>base.RestService\<close> (not part of the sources). A service holds
  a path under the base URL; \<open>format_url\<close> appends a sub-resource to it; \<^verbatim>\<open>_get\<close>,
  \<^verbatim>\<open>_post\<close>, \<^verbatim>\<open>_put\<close>, \<^verbatim>\<open>_patch\<close> and \<^verbatim>\<open>_delete\<close> send a request and return the
  parsed JSON body.
\<close>

definition format_url :: "string \<Rightarrow> string option \<Rightarrow> string" where
  "format_url p uri = (case uri of None \<Rightarrow> p | Some u \<Rightarrow> p @ ''/'' @ u)"

definition response_json :: "response \<Rightarrow> error + json_obj" where
  "response_json r = (case body_json r of None \<Rightarrow> Inl JSONDecodeError | Some d \<Rightarrow> Inr d)"

definition rest_request :: "request \<Rightarrow> world \<Rightarrow> (error + json_obj) \<times> world" where
  "rest_request rq w =
     (case connection_request rq w of
        (Inl e, w') \<Rightarrow> (Inl e, w')
      | (Inr r, w') \<Rightarrow> (response_json r, w'))"

definition get_request :: "string \<Rightarrow> string option \<Rightarrow> request" where
  "get_request p uri =
     \<lparr>verb = GET, url = format_url p uri, json_body = None, data = None, headers = []\<rparr>"

definition post_request :: "string \<Rightarrow> json_obj \<Rightarrow> request" where
  "post_request p body =
     \<lparr>verb = POST, url = format_url p None, json_body = Some body, data = None, headers = []\<rparr>"

definition put_request :: "string \<Rightarrow> string \<Rightarrow> string \<Rightarrow> (string \<times> string) list \<Rightarrow> request" where
  "put_request p uri d hs =
     \<lparr>verb = PUT, url = format_url p (Some uri), json_body = None, data = Some d, headers = hs\<rparr>"

definition patch_request :: "string \<Rightarrow> json_obj \<Rightarrow> request" where
  "patch_request p body =
     \<lparr>verb = PATCH, url = format_url p None, json_body = Some body, data = None, headers = []\<rparr>"

definition delete_request :: "string \<Rightarrow> request" where
  "delete_request p =
     \<lparr>verb = DELETE, url = format_url p None, json_body = None, data = None, headers = []\<rparr>"

definition rest_get :: "string \<Rightarrow> world \<Rightarrow> (error + json_obj) \<times> world" where
  "rest_get p w = rest_request (get_request p None) w"

definition rest_post :: "string \<Rightarrow> json_obj \<Rightarrow> world \<Rightarrow> (error + json_obj) \<times> world" where
  "rest_post p body w = rest_request (post_request p body) w"

definition rest_put ::
  "string \<Rightarrow> string \<Rightarrow> string \<Rightarrow> (string \<times> string) list \<Rightarrow> world \<Rightarrow> (error + json_obj) \<times> world" where
  "rest_put p uri d hs w = rest_request (put_request p uri d hs) w"

definition rest_patch :: "string \<Rightarrow> json_obj \<Rightarrow> world \<Rightarrow> (error + json_obj) \<times> world" where
  "rest_patch p body w = rest_request (patch_request p body) w"

definition rest_delete :: "string \<Rightarrow> world \<Rightarrow> (error + json_obj) \<times> world" where
  "rest_delete p w = rest_request (delete_request p) w"

section \<open>Reading CSV: \<^verbatim>\<open>csv.reader(io.StringIO(text))\<close>\<close>

text \<open>
  Iterating \<^verbatim>\<open>io.StringIO(text)\<close> yields the lines of the text, each with its line feed;
  only a line feed ends a line.
\<close>

fun readlines :: "string \<Rightarrow> string \<Rightarrow> string list" where
  "readlines acc [] = (if acc = [] then [] else [acc])"
| "readlines acc (c # cs) =
     (if c = CHR 0x0A then (acc @ [c]) # readlines [] cs else readlines (acc @ [c]) cs)"

text \<open>
  The reader of Python's \<^verbatim>\<open>csv\<close> module with its default dialect (delimiter comma, quote
  character the double quote, doubled quotes, no escape character, not strict), as a
  state machine over the characters of a line and the end of the line (\<open>None\<close>). A field
  longer than the field size limit is an error.
\<close>

datatype parser_state =
  START_RECORD | START_FIELD | IN_FIELD | IN_QUOTED_FIELD | QUOTE_IN_QUOTED_FIELD | EAT_CRNL

record reader =
  state :: parser_state
  field_list :: "string list"
  field :: string

definition field_limit :: nat where
  "field_limit = 131072"

definition parse_reset :: reader where
  "parse_reset = \<lparr>state = START_RECORD, field_list = [], field = []\<rparr>"

definition parse_save_field :: "reader \<Rightarrow> reader" where
  "parse_save_field r = r\<lparr>field_list := field_list r @ [field r], field := []\<rparr>"

definition parse_add_char :: "reader \<Rightarrow> char \<Rightarrow> error + reader" where
  "parse_add_char r c =
     (if field_limit \<le> length (field r) then Inl CsvError
      else Inr (r\<lparr>field := field r @ [c]\<rparr>))"

definition is_newline :: "char option \<Rightarrow> bool" where
  "is_newline c = (c = Some (CHR 0x0A) \<or> c = Some (CHR 0x0D))"

definition end_of_field :: "reader \<Rightarrow> char option \<Rightarrow> reader" where
  "end_of_field r c = (parse_save_field r)\<lparr>state := (if c = None then START_RECORD else EAT_CRNL)\<rparr>"

definition start_field :: "reader \<Rightarrow> char option \<Rightarrow> error + reader" where
  "start_field r c =
     (if is_newline c \<or> c = None then Inr (end_of_field r c)
      else if c = Some (CHR 0x22) then Inr (r\<lparr>state := IN_QUOTED_FIELD\<rparr>)
      else if c = Some (CHR '','') then Inr (parse_save_field r)
      else (case parse_add_char r (the c) of
              Inl e \<Rightarrow> Inl e
            | Inr r' \<Rightarrow> Inr (r'\<lparr>state := IN_FIELD\<rparr>)))"

definition parse_process_char :: "reader \<Rightarrow> char option \<Rightarrow> error + reader" where
  "parse_process_char r c =
     (case state r of
        START_RECORD \<Rightarrow>
          (if c = None then Inr r
           else if is_newline c then Inr (r\<lparr>state := EAT_CRNL\<rparr>)
           else start_field (r\<lparr>state := START_FIELD\<rparr>) c)
      | START_FIELD \<Rightarrow> start_field r c
      | IN_FIELD \<Rightarrow>
          (if is_newline c \<or> c = None then Inr (end_of_field r c)
           else if c = Some (CHR '','') then Inr ((parse_save_field r)\<lparr>state := START_FIELD\<rparr>)
           else parse_add_char r (the c))
      | IN_QUOTED_FIELD \<Rightarrow>
          (if c = None then Inr r
           else if c = Some (CHR 0x22) then Inr (r\<lparr>state := QUOTE_IN_QUOTED_FIELD\<rparr>)
           else parse_add_char r (the c))
      | QUOTE_IN_QUOTED_FIELD \<Rightarrow>
          (if c = Some (CHR 0x22) then
             (case parse_add_char r (CHR 0x22) of
                Inl e \<Rightarrow> Inl e
              | Inr r' \<Rightarrow> Inr (r'\<lparr>state := IN_QUOTED_FIELD\<rparr>))
           else if c = Some (CHR '','') then Inr ((parse_save_field r)\<lparr>state := START_FIELD\<rparr>)
           else if is_newline c \<or> c = None then Inr (end_of_field r c)
           else (case parse_add_char r (the c) of
                   Inl e \<Rightarrow> Inl e
                 | Inr r' \<Rightarrow> Inr (r'\<lparr>state := IN_FIELD\<rparr>)))
      | EAT_CRNL \<Rightarrow>
          (if is_newline c then Inr r
           else if c = None then Inr (r\<lparr>state := START_RECORD\<rparr>)
           else Inl CsvError))"

fun process_line :: "reader \<Rightarrow> string \<Rightarrow> error + reader" where
  "process_line r [] = Inr r"
| "process_line r (c # cs) =
     (case parse_process_char r (Some c) of
        Inl e \<Rightarrow> Inl e
      | Inr r' \<Rightarrow> process_line r' cs)"

text \<open>
  The rows that iterating the reader yields, and the error that ends the iteration if
  one does. A record is complete when a line ends outside a quoted field; input that
  ends inside a record yields what was read of it.
\<close>

fun reader_rows :: "reader \<Rightarrow> string list \<Rightarrow> string list list \<times> error option" where
  "reader_rows r [] =
     (if field r \<noteq> [] \<or> state r = IN_QUOTED_FIELD then ([field_list (parse_save_field r)], None)
      else ([], None))"
| "reader_rows r (l # ls) =
     (case process_line r l of
        Inl e \<Rightarrow> ([], Some e)
      | Inr r1 \<Rightarrow>
          (case parse_process_char r1 None of
             Inl e \<Rightarrow> ([], Some e)
           | Inr r2 \<Rightarrow>
               if state r2 = START_RECORD then
                 (case reader_rows parse_reset ls of (rows, t) \<Rightarrow> (field_list r2 # rows, t))
               else reader_rows r2 ls))"

definition csv_reader :: "string \<Rightarrow> string list list \<times> error option" where
  "csv_reader t = reader_rows parse_reset (readlines [] t)"

text \<open>\<^verbatim>\<open>xs[i]\<close> for a constant index \<open>i\<close>.\<close>

definition getitem :: "'a list \<Rightarrow> nat \<Rightarrow> error + 'a" where
  "getitem xs i = (if i < length xs then Inr (xs ! i) else Inl IndexError)"

text \<open>
  \<^verbatim>\<open>[callback(x) for x in reader]\<close>: the rows are read one at a time, and the first
  exception, of the callback on a row or of the reader after the rows, ends it.
\<close>

fun comprehension :: "('a \<Rightarrow> error + 'b) \<Rightarrow> 'a list \<Rightarrow> error option \<Rightarrow> error + 'b list" where
  "comprehension f [] None = Inr []"
| "comprehension f [] (Some e) = Inl e"
| "comprehension f (x # xs) t =
     (case f x of
        Inl e \<Rightarrow> Inl e
      | Inr y \<Rightarrow> (case comprehension f xs t of Inl e \<Rightarrow> Inl e | Inr ys \<Rightarrow> Inr (y # ys)))"

section \<open>Job\<close>

record Job =
  path :: string
  job_id :: string

text \<open>\<^verbatim>\<open>Job.__init__\<close>: \<^verbatim>\<open>'jobs/ingest/' + job_id\<close> is a type error unless the id is a string.\<close>

definition Job_init :: "json \<Rightarrow> error + Job" where
  "Job_init i =
     (case i of
        JString s \<Rightarrow> Inr \<lparr>path = ''jobs/ingest/'' @ s, job_id = s\<rparr>
      | _ \<Rightarrow> Inl TypeError)"

definition set_state :: "Job \<Rightarrow> string \<Rightarrow> world \<Rightarrow> (error + json_obj) \<times> world" where
  "set_state j new_state w = rest_patch (path j) [(''state'', JString new_state)] w"

definition prepare_data :: "settings \<Rightarrow> entry list \<Rightarrow> error + string" where
  "prepare_data c entries = get_csv_string c entries"

text \<open>The body of the \<^verbatim>\<open>try\<close> in \<^verbatim>\<open>upload\<close>: the argument is evaluated, then the PUT is sent.\<close>

definition upload_put :: "settings \<Rightarrow> Job \<Rightarrow> entry list \<Rightarrow> world \<Rightarrow> (error + json_obj) \<times> world" where
  "upload_put c j entries w =
     (case prepare_data c entries of
        Inl e \<Rightarrow> (Inl e, w)
      | Inr d \<Rightarrow> rest_put (path j) ''batches'' d [(''Content-Type'', ''text/csv'')] w)"

definition Job_upload :: "settings \<Rightarrow> Job \<Rightarrow> entry list \<Rightarrow> world \<Rightarrow> (error + bool) \<times> world" where
  "Job_upload c j entries w =
     (case upload_put c j entries w of
        (r, w1) \<Rightarrow>
          if (case r of Inl e \<Rightarrow> e \<noteq> JSONDecodeError | Inr _ \<Rightarrow> False)
          then (Inl (projl r), w1)
          else (case set_state j (BULK_STATE_UPLOAD_COMPLETE c) w1 of
                  (Inl e, w2) \<Rightarrow> (Inl e, w2)
                | (Inr _, w2) \<Rightarrow> (Inr True, w2)))"

definition close :: "Job \<Rightarrow> world \<Rightarrow> (error + json_obj) \<times> world" where
  "close j w = set_state j ''UploadComplete'' w"

definition abort :: "Job \<Rightarrow> world \<Rightarrow> (error + json_obj) \<times> world" where
  "abort j w = set_state j ''Aborted'' w"

definition Job_delete :: "Job \<Rightarrow> world \<Rightarrow> (error + json_obj) \<times> world" where
  "Job_delete j w = rest_delete (path j) w"

definition info :: "Job \<Rightarrow> world \<Rightarrow> (error + json_obj) \<times> world" where
  "info j w = rest_get (path j) w"

definition get_state :: "Job \<Rightarrow> world \<Rightarrow> (error + json) \<times> world" where
  "get_state j w =
     (case info j w of
        (Inl e, w') \<Rightarrow> (Inl e, w')
      | (Inr d, w') \<Rightarrow> (Inr (dict_get d ''state''), w'))"

definition is_done :: "settings \<Rightarrow> Job \<Rightarrow> world \<Rightarrow> (error + bool) \<times> world" where
  "is_done c j w =
     (case get_state j w of
        (Inl e, w') \<Rightarrow> (Inl e, w')
      | (Inr s, w') \<Rightarrow> (Inr (json_in s (BULK_STATES_DONE c)), w'))"

definition get_results ::
  "Job \<Rightarrow> string \<Rightarrow> (string list \<Rightarrow> error + ResultRecord) \<Rightarrow> world
     \<Rightarrow> (error + ResultRecord list) \<times> world" where
  "get_results j uri callback w =
     (case connection_request (get_request (path j) (Some uri)) w of
        (Inl e, w') \<Rightarrow> (Inl e, w')
      | (Inr r, w') \<Rightarrow>
          (case csv_reader (body_text r) of
             (rows, t) \<Rightarrow> (comprehension callback (drop 1 rows) t, w')))"

definition success_callback :: "string list \<Rightarrow> error + ResultRecord" where
  "success_callback x =
     (case getitem x 0 of Inl e \<Rightarrow> Inl e | Inr i \<Rightarrow> Inr (SuccessResultRecord i))"

definition fail_callback :: "string list \<Rightarrow> error + ResultRecord" where
  "fail_callback x =
     (case getitem x 0 of
        Inl e \<Rightarrow> Inl e
      | Inr i \<Rightarrow> (case getitem x 1 of Inl e \<Rightarrow> Inl e | Inr m \<Rightarrow> Inr (FailResultRecord i m)))"

definition get_successful_results :: "Job \<Rightarrow> world \<Rightarrow> (error + ResultRecord list) \<times> world" where
  "get_successful_results j w = get_results j ''successfulResults'' success_callback w"

definition get_failed_results :: "Job \<Rightarrow> world \<Rightarrow> (error + ResultRecord list) \<times> world" where
  "get_failed_results j w = get_results j ''failedResults'' fail_callback w"

definition get_unprocessed_records :: "Job \<Rightarrow> world \<Rightarrow> (error + ResultRecord list) \<times> world" where
  "get_unprocessed_records j w = (Inl NotImplementedError, w)"

text \<open>
  The \<^verbatim>\<open>while\<close> loop of \<^verbatim>\<open>wait\<close>. It may poll forever: \<open>None\<close> is a loop that never
  ends.
\<close>

partial_function (option) wait_loop ::
  "settings \<Rightarrow> Job \<Rightarrow> world \<Rightarrow> ((error + unit) \<times> world) option" where
  "wait_loop c j w =
     (case is_done c j w of
        (Inl e, w') \<Rightarrow> Some (Inl e, w')
      | (Inr d, w') \<Rightarrow>
          if d then Some (Inr (), w')
          else wait_loop c j (sleep (POLL_SLEEP_SECONDS c) w'))"

text \<open>What \<^verbatim>\<open>wait\<close> does once the loop has ended.\<close>

definition wait_finish :: "settings \<Rightarrow> Job \<Rightarrow> world \<Rightarrow> (error + ResultRecord list) \<times> world" where
  "wait_finish c j w =
     (case get_state j w of
        (Inl e, w1) \<Rightarrow> (Inl e, w1)
      | (Inr s, w1) \<Rightarrow>
          if json_in s (BULK_STATES_FAIL c) then
            (case info j w1 of
               (Inl e, w2) \<Rightarrow> (Inl e, w2)
             | (Inr d, w2) \<Rightarrow> (Inl (BulkJobFailedError (dict_get d ''errorMessage'')), w2))
          else
            (case get_failed_results j w1 of
               (Inl e, w2) \<Rightarrow> (Inl e, w2)
             | (Inr fs, w2) \<Rightarrow>
                 (case get_successful_results j w2 of
                    (Inl e, w3) \<Rightarrow> (Inl e, w3)
                  | (Inr ss, w3) \<Rightarrow> (Inr (fs @ ss), w3))))"

definition Job_wait ::
  "settings \<Rightarrow> Job \<Rightarrow> world \<Rightarrow> ((error + ResultRecord list) \<times> world) option" where
  "Job_wait c j w =
     (case wait_loop c j w of
        None \<Rightarrow> None
      | Some (Inl e, w1) \<Rightarrow> Some (Inl e, w1)
      | Some (Inr _, w1) \<Rightarrow> Some (wait_finish c j w1))"

section \<open>Bulk\<close>

definition Bulk_path :: string where
  "Bulk_path = ''jobs/ingest''"

definition create_job :: "string \<Rightarrow> string \<Rightarrow> json \<Rightarrow> world \<Rightarrow> (error + Job) \<times> world" where
  "create_job operation object_name external_id_field_name w =
     (case rest_post Bulk_path
             [(''columnDelimiter'', JString ''COMMA''),
              (''contentType'', JString ''CSV''),
              (''lineEnding'', JString ''LF''),
              (''object'', JString object_name),
              (''operation'', JString operation),
              (''externalIdFieldName'', external_id_field_name)] w of
        (Inl e, w') \<Rightarrow> (Inl e, w')
      | (Inr result, w') \<Rightarrow> (Job_init (dict_get result ''id''), w'))"

definition execute_operation ::
  "settings \<Rightarrow> string \<Rightarrow> string \<Rightarrow> entry list \<Rightarrow> json \<Rightarrow> world
     \<Rightarrow> ((error + ResultRecord list) \<times> world) option" where
  "execute_operation c operation object_name entries external_id_field_name w =
     (case create_job operation object_name external_id_field_name w of
        (Inl e, w1) \<Rightarrow> Some (Inl e, w1)
      | (Inr job_instance, w1) \<Rightarrow>
          (case Job_upload c job_instance entries w1 of
             (Inl e, w2) \<Rightarrow> Some (Inl e, w2)
           | (Inr _, w2) \<Rightarrow> Job_wait c job_instance w2))"

definition Bulk_insert ::
  "settings \<Rightarrow> string \<Rightarrow> entry list \<Rightarrow> world \<Rightarrow> ((error + ResultRecord list) \<times> world) option" where
  "Bulk_insert c object_name entries w = execute_operation c ''insert'' object_name entries JNull w"

definition Bulk_update ::
  "settings \<Rightarrow> string \<Rightarrow> entry list \<Rightarrow> world \<Rightarrow> ((error + ResultRecord list) \<times> world) option" where
  "Bulk_update c object_name entries w = execute_operation c ''update'' object_name entries JNull w"

text \<open>The external id field is \<open>None\<close> when the caller leaves it out: the default is \<^verbatim>\<open>'Id'\<close>.\<close>

definition Bulk_upsert ::
  "settings \<Rightarrow> string \<Rightarrow> entry list \<Rightarrow> json option \<Rightarrow> world
     \<Rightarrow> ((error + ResultRecord list) \<times> world) option" where
  "Bulk_upsert c object_name entries external_id_field_name w =
     execute_operation c ''upsert'' object_name entries
       (case external_id_field_name of None \<Rightarrow> JString ''Id'' | Some x \<Rightarrow> x) w"

text \<open>\<^verbatim>\<open>select(**kwargs)\<close>: the keyword arguments are not looked at.\<close>

definition Bulk_select :: "(string \<times> json) list \<Rightarrow> world \<Rightarrow> (error + ResultRecord list) \<times> world" where
  "Bulk_select kwargs w = (Inl NotImplementedError, w)"

definition Bulk_delete ::
  "settings \<Rightarrow> string \<Rightarrow> string list \<Rightarrow> world \<Rightarrow> ((error + ResultRecord list) \<times> world) option" where
  "Bulk_delete c object_name ids w =
     execute_operation c ''delete'' object_name (map (\<lambda>i. [(''Id'', i)]) ids) JNull w"

section \<open>Vocabulary of the properties\<close>

text \<open>The status check of a job: the GET of the job resource that \<^verbatim>\<open>info\<close> sends.\<close>

definition status_request :: "Job \<Rightarrow> request" where
  "status_request j = get_request (path j) None"

text \<open>The GET of a result set of a job, one of its sub-resources.\<close>

definition results_request :: "Job \<Rightarrow> string \<Rightarrow> request" where
  "results_request j uri = get_request (path j) (Some uri)"

text \<open>The world after a request has been sent.\<close>

definition sent :: "request \<Rightarrow> world \<Rightarrow> world" where
  "sent rq w = w\<lparr>trace := trace w @ [Request rq]\<rparr>"

text \<open>What happened between two worlds, the second reached from the first.\<close>

definition events_since :: "world \<Rightarrow> world \<Rightarrow> event list" where
  "events_since w w' = drop (length (trace w)) (trace w')"

definition status_checks :: "Job \<Rightarrow> event list \<Rightarrow> nat" where
  "status_checks j es = length (filter (\<lambda>e. e = Request (status_request j)) es)"

text \<open>The world after \<open>n\<close> rounds of the loop of \<^verbatim>\<open>wait\<close>: a status check, then a sleep.\<close>

fun polls :: "settings \<Rightarrow> Job \<Rightarrow> nat \<Rightarrow> world \<Rightarrow> world" where
  "polls c j 0 w = w"
| "polls c j (Suc n) w = polls c j n (sleep (POLL_SLEEP_SECONDS c) (snd (is_done c j w)))"

text \<open>
  A remote platform for the examples. It creates job 750, answers the \<open>k\<close>-th status check
  with the \<open>k\<close>-th of the given job descriptors (the last one from then on), answers the
  upload with an empty body, which is not JSON, and serves the two given result texts.
\<close>

definition example_job :: Job where
  "example_job = \<lparr>path = ''jobs/ingest/750'', job_id = ''750''\<rparr>"

definition example_remote ::
  "json_obj list \<Rightarrow> string \<Rightarrow> string \<Rightarrow> event list \<Rightarrow> request \<Rightarrow> error + response" where
  "example_remote ds failed succeeded tr rq =
     (if verb rq = GET \<and> url rq = ''jobs/ingest/750'' then
        Inr \<lparr>body_text = [],
             body_json = Some (ds ! min (status_checks example_job tr) (length ds - 1))\<rparr>
      else if verb rq = GET \<and> url rq = ''jobs/ingest/750/failedResults'' then
        Inr \<lparr>body_text = failed, body_json = None\<rparr>
      else if verb rq = GET \<and> url rq = ''jobs/ingest/750/successfulResults'' then
        Inr \<lparr>body_text = succeeded, body_json = None\<rparr>
      else if verb rq = POST \<and> url rq = ''jobs/ingest'' then
        Inr \<lparr>body_text = [], body_json = Some [(''id'', JString ''750'')]\<rparr>
      else if verb rq = PUT \<and> url rq = ''jobs/ingest/750/batches'' then
        Inr \<lparr>body_text = [], body_json = None\<rparr>
      else if verb rq = PATCH \<and> url rq = ''jobs/ingest/750'' then
        Inr \<lparr>body_text = [], body_json = Some [(''id'', JString ''750'')]\<rparr>
      else Inl (TransportError ''404''))"

definition example_world :: "json_obj list \<Rightarrow> string \<Rightarrow> string \<Rightarrow> event list \<Rightarrow> world" where
  "example_world ds failed succeeded tr = \<lparr>trace = tr, remote = example_remote ds failed succeeded\<rparr>"

text \<open>Job descriptors and result texts for the examples.\<close>

definition descriptor :: "string \<Rightarrow> json_obj" where
  "descriptor st = [(''id'', JString ''750''), (''state'', JString st)]"

definition failed_descriptor :: "string \<Rightarrow> json_obj" where
  "failed_descriptor msg =
     [(''id'', JString ''750''), (''state'', JString ''Failed''), (''errorMessage'', JString msg)]"

definition example_failed_csv :: string where
  "example_failed_csv = ''sf__Id,sf__Error'' @ [CHR 0x0A] @ ''001,BAD'' @ [CHR 0x0A]"

definition example_successful_csv :: string where
  "example_successful_csv = ''sf__Id,sf__Created'' @ [CHR 0x0A] @ ''002,true'' @ [CHR 0x0A]"

definition blank_line_csv :: string where
  "blank_line_csv = ''sf__Id,sf__Created'' @ [CHR 0x0A] @ [CHR 0x0A]"

definition one_column_csv :: string where
  "one_column_csv = ''sf__Id,sf__Error'' @ [CHR 0x0A] @ ''001'' @ [CHR 0x0A]"

text \<open>A job that the remote of the examples does not know: its requests fail.\<close>

definition unknown_job :: Job where
  "unknown_job = \<lparr>path = ''jobs/ingest/000'', job_id = ''000''\<rparr>"

text \<open>The requests of an upload and of a job creation, as \<^verbatim>\<open>upload\<close> and \<^verbatim>\<open>_create_job\<close> build them.\<close>

definition batch_request :: "Job \<Rightarrow> string \<Rightarrow> request" where
  "batch_request j d = put_request (path j) ''batches'' d [(''Content-Type'', ''text/csv'')]"

definition state_request :: "Job \<Rightarrow> string \<Rightarrow> request" where
  "state_request j st = patch_request (path j) [(''state'', JString st)]"

definition creation_request :: "string \<Rightarrow> string \<Rightarrow> json \<Rightarrow> request" where
  "creation_request operation object_name external_id_field_name =
     \<lparr>verb = POST, url = ''jobs/ingest'',
      json_body = Some [(''columnDelimiter'', JString ''COMMA''),
                        (''contentType'', JString ''CSV''),
                        (''lineEnding'', JString ''LF''),
                        (''object'', JString object_name),
                        (''operation'', JString operation),
                        (''externalIdFieldName'', external_id_field_name)],
      data = None, headers = []\<rparr>"

section \<open>Unsupported operations\<close>

text \<open>
  Claim C9. \<^verbatim>\<open>Bulk.select\<close>, whatever its keyword arguments, and
  \<^verbatim>\<open>Job.get_unprocessed_records\<close> raise \<^verbatim>\<open>NotImplementedError\<close>, and the world after the
  call is the world before it: no request has been sent.
\<close>

theorem unsupported_operations_raise:
  "Bulk_select kwargs w = (Inl NotImplementedError, w) \<and>
   get_unprocessed_records j w = (Inl NotImplementedError, w) \<and>
   events_since w (snd (Bulk_select kwargs w)) = [] \<and>
   events_since w (snd (get_unprocessed_records j w)) = []"
  by (simp add: Bulk_select_def get_unprocessed_records_def events_since_def)

section \<open>The trace of requests, and the loop of \<^verbatim>\<open>wait\<close>\<close>

lemma snd_connection_request: "snd (connection_request rq w) = sent rq w"
  by (simp add: connection_request_def sent_def)

lemma snd_rest_request: "snd (rest_request rq w) = sent rq w"
  by (simp add: rest_request_def connection_request_def sent_def split: sum.splits)

lemma snd_info: "snd (info j w) = sent (status_request j) w"
  by (simp add: info_def rest_get_def snd_rest_request status_request_def)

lemma snd_get_state: "snd (get_state j w) = sent (status_request j) w"
  using snd_info [of j w] by (auto simp add: get_state_def split: prod.splits sum.splits)

lemma snd_is_done: "snd (is_done c j w) = sent (status_request j) w"
  using snd_get_state [of j w] by (auto simp add: is_done_def split: prod.splits sum.splits)

lemma trace_polls:
  "trace (polls c j n w) =
     trace w @ concat (replicate n [Request (status_request j), Sleep (POLL_SLEEP_SECONDS c)])"
  by (induction n arbitrary: w) (simp_all add: snd_is_done sent_def sleep_def)

lemma remote_polls: "remote (polls c j n w) = remote w"
  by (induction n arbitrary: w) (simp_all add: snd_is_done sent_def sleep_def)

lemma wait_loop_exit:
  assumes "wait_loop c j w = Some y"
  shows "\<exists>n r w1. (\<forall>k<n. fst (is_done c j (polls c j k w)) = Inr False) \<and>
            is_done c j (polls c j n w) = (r, w1) \<and> r \<noteq> Inr False \<and>
            y = (map_sum id (\<lambda>_. ()) r, w1)"
proof (rule wait_loop.raw_induct [OF _ assms])
  fix wl :: "settings \<Rightarrow> Job \<Rightarrow> world \<Rightarrow> ((error + unit) \<times> world) option"
  fix c j w y
  assume IH: "\<And>c j w y. wl c j w = Some y \<Longrightarrow>
     \<exists>n r w1. (\<forall>k<n. fst (is_done c j (polls c j k w)) = Inr False) \<and>
            is_done c j (polls c j n w) = (r, w1) \<and> r \<noteq> Inr False \<and>
            y = (map_sum id (\<lambda>_. ()) r, w1)"
  assume step: "(case is_done c j w of
        (Inl e, w') \<Rightarrow> Some (Inl e, w')
      | (Inr d, w') \<Rightarrow>
          if d then Some (Inr (), w')
          else wl c j (sleep (POLL_SLEEP_SECONDS c) w')) = Some y"
  obtain r w' where rw: "is_done c j w = (r, w')" by (cases "is_done c j w")
  show "\<exists>n r w1. (\<forall>k<n. fst (is_done c j (polls c j k w)) = Inr False) \<and>
            is_done c j (polls c j n w) = (r, w1) \<and> r \<noteq> Inr False \<and>
            y = (map_sum id (\<lambda>_. ()) r, w1)"
  proof (cases "r = Inr False")
    case False
    with step rw have "y = (map_sum id (\<lambda>_. ()) r, w')"
      by (auto split: sum.splits if_splits)
    with rw False have "(\<forall>k<0::nat. fst (is_done c j (polls c j k w)) = Inr False) \<and>
            is_done c j (polls c j 0 w) = (r, w') \<and> r \<noteq> Inr False \<and>
            y = (map_sum id (\<lambda>_. ()) r, w')" by simp
    then show ?thesis by blast
  next
    case True
    with step rw have "wl c j (sleep (POLL_SLEEP_SECONDS c) w') = Some y" by simp
    from IH [OF this] obtain n r1 w1 where
      n: "\<forall>k<n. fst (is_done c j (polls c j k (sleep (POLL_SLEEP_SECONDS c) w'))) = Inr False"
         "is_done c j (polls c j n (sleep (POLL_SLEEP_SECONDS c) w')) = (r1, w1)"
         "r1 \<noteq> Inr False" "y = (map_sum id (\<lambda>_. ()) r1, w1)" by blast
    have "\<forall>k<Suc n. fst (is_done c j (polls c j k w)) = Inr False"
    proof (intro allI impI)
      fix k assume "k < Suc n"
      then show "fst (is_done c j (polls c j k w)) = Inr False"
        using n(1) rw True by (cases k) simp_all
    qed
    moreover have "is_done c j (polls c j (Suc n) w) = (r1, w1)"
      using n(2) rw by simp
    ultimately show ?thesis using n(3,4) by blast
  qed
qed

lemma wait_loop_polls:
  "(\<forall>k<n. fst (is_done c j (polls c j k w)) = Inr False) \<Longrightarrow>
   wait_loop c j w = wait_loop c j (polls c j n w)"
proof (induction n arbitrary: w)
  case 0
  then show ?case by simp
next
  case (Suc n)
  from Suc.prems have f: "fst (is_done c j w) = Inr False" by force
  have "\<forall>k<n. fst (is_done c j (polls c j k (sleep (POLL_SLEEP_SECONDS c) (snd (is_done c j w))))) = Inr False"
  proof (intro allI impI)
    fix k assume "k < n"
    then have "Suc k < Suc n" by simp
    with Suc.prems have "fst (is_done c j (polls c j (Suc k) w)) = Inr False" by blast
    then show "fst (is_done c j (polls c j k (sleep (POLL_SLEEP_SECONDS c) (snd (is_done c j w))))) = Inr False"
      by simp
  qed
  from Suc.IH [OF this] have
    "wait_loop c j (sleep (POLL_SLEEP_SECONDS c) (snd (is_done c j w))) = wait_loop c j (polls c j (Suc n) w)"
    by simp
  moreover have "wait_loop c j w = wait_loop c j (sleep (POLL_SLEEP_SECONDS c) (snd (is_done c j w)))"
    using f by (subst wait_loop.simps) (auto split: prod.splits)
  ultimately show ?case by simp
qed

lemma wait_loop_done:
  "is_done c j w = (Inr True, w1) \<Longrightarrow> wait_loop c j w = Some (Inr (), w1)"
  by (subst wait_loop.simps) simp

lemma wait_loop_not_done:
  "is_done c j w = (Inr False, w1) \<Longrightarrow>
   wait_loop c j w = wait_loop c j (sleep (POLL_SLEEP_SECONDS c) w1)"
  by (subst wait_loop.simps) simp

lemma wait_loop_error:
  "is_done c j w = (Inl e, w1) \<Longrightarrow> wait_loop c j w = Some (Inl e, w1)"
  by (subst wait_loop.simps) simp

section \<open>Waiting for a job\<close>

lemma snd_get_results: "snd (get_results j uri cb w) = sent (results_request j uri) w"
  using snd_connection_request [of "get_request (path j) (Some uri)" w]
  by (auto simp add: get_results_def results_request_def split: prod.splits sum.splits)

lemma is_done_of_get_state:
  "get_state j w = (Inr s, w') \<Longrightarrow> is_done c j w = (Inr (json_in s (BULK_STATES_DONE c)), w')"
  by (simp add: is_done_def)

lemma get_state_of_is_done:
  "is_done c j w = (Inr True, w') \<Longrightarrow>
   \<exists>s. get_state j w = (Inr (JString s), w') \<and> s \<in> set (BULK_STATES_DONE c)"
  by (auto simp add: is_done_def json_in_def split: prod.splits sum.splits json.splits)

lemma comprehension_all:
  "comprehension f xs t = Inr ys \<Longrightarrow> (\<And>x y. f x = Inr y \<Longrightarrow> P y) \<Longrightarrow> list_all P ys"
  by (induction f xs t arbitrary: ys rule: comprehension.induct)
     (auto split: sum.splits)

lemma failed_results_all_fail:
  "get_failed_results j w = (Inr fs, w') \<Longrightarrow> list_all is_fail fs"
  by (auto simp add: get_failed_results_def get_results_def fail_callback_def
      split: prod.splits sum.splits elim!: comprehension_all)

lemma successful_results_none_fail:
  "get_successful_results j w = (Inr ss, w') \<Longrightarrow> list_all (\<lambda>r. \<not> is_fail r) ss"
  by (auto simp add: get_successful_results_def get_results_def success_callback_def
      split: prod.splits sum.splits elim!: comprehension_all)

lemma wait_loop_returns:
  assumes "wait_loop c j w = Some (Inr u, w1)"
  shows "\<exists>n s. (\<forall>k<n. fst (is_done c j (polls c j k w)) = Inr False) \<and>
      get_state j (polls c j n w) = (Inr (JString s), w1) \<and> s \<in> set (BULK_STATES_DONE c) \<and>
      trace w1 = trace w @ concat (replicate n [Request (status_request j), Sleep (POLL_SLEEP_SECONDS c)])
                  @ [Request (status_request j)]"
proof -
  from wait_loop_exit [OF assms] obtain n r w1' where
    n: "\<forall>k<n. fst (is_done c j (polls c j k w)) = Inr False"
       "is_done c j (polls c j n w) = (r, w1')" "r \<noteq> Inr False"
       "(Inr u, w1) = (map_sum id (\<lambda>_. ()) r, w1')" by blast
  from n(3,4) have r: "r = Inr True" and w1: "w1' = w1" by (cases r; auto)+
  from n(2) r w1 have d: "is_done c j (polls c j n w) = (Inr True, w1)" by simp
  from get_state_of_is_done [OF d] obtain s where
    s: "get_state j (polls c j n w) = (Inr (JString s), w1)" "s \<in> set (BULK_STATES_DONE c)" by blast
  from d have "w1 = sent (status_request j) (polls c j n w)"
    using snd_is_done [of c j "polls c j n w"] by simp
  then have "trace w1 = trace w @ concat (replicate n [Request (status_request j), Sleep (POLL_SLEEP_SECONDS c)])
                  @ [Request (status_request j)]"
    by (simp add: sent_def trace_polls)
  with n(1) s show ?thesis by blast
qed

text \<open>
  Claim C3. If \<^verbatim>\<open>wait\<close> returns normally, then for some \<open>n\<close> its first \<open>n\<close> status checks
  saw a job that was not done, each followed by one sleep of \<^verbatim>\<open>POLL_SLEEP_SECONDS\<close>, and
  the next status check observed a state \<open>s\<close> of \<^verbatim>\<open>BULK_STATES_DONE\<close>; only then did the
  rest of \<^verbatim>\<open>wait\<close> run. With the constants of the spec the states of \<^verbatim>\<open>BULK_STATES_DONE\<close>
  are JobComplete, Failed and Aborted.
\<close>

theorem wait_returns_only_after_terminal_state:
  assumes "Job_wait c j w = Some (Inr rs, w')"
  shows "\<exists>n s w1. (\<forall>k<n. fst (is_done c j (polls c j k w)) = Inr False) \<and>
      get_state j (polls c j n w) = (Inr (JString s), w1) \<and> s \<in> set (BULK_STATES_DONE c) \<and>
      events_since w w1 =
        concat (replicate n [Request (status_request j), Sleep (POLL_SLEEP_SECONDS c)])
          @ [Request (status_request j)] \<and>
      wait_finish c j w1 = (Inr rs, w')"
proof -
  from assms obtain u w1 where
    l: "wait_loop c j w = Some (Inr u, w1)" and f: "wait_finish c j w1 = (Inr rs, w')"
    by (auto simp add: Job_wait_def split: option.splits prod.splits sum.splits)
  from wait_loop_returns [OF l] obtain n s where
    "\<forall>k<n. fst (is_done c j (polls c j k w)) = Inr False"
    "get_state j (polls c j n w) = (Inr (JString s), w1)" "s \<in> set (BULK_STATES_DONE c)"
    "trace w1 = trace w @ concat (replicate n [Request (status_request j), Sleep (POLL_SLEEP_SECONDS c)])
                  @ [Request (status_request j)]" by blast
  with f show ?thesis by (auto simp add: events_since_def)
qed

lemma status_checks_simps:
  "status_checks j [] = 0"
  "status_checks j (Sleep n # es) = status_checks j es"
  "status_checks j (Request rq # es) =
     (if rq = status_request j then Suc (status_checks j es) else status_checks j es)"
  by (simp_all add: status_checks_def)

lemma example_requests:
  "status_request example_job = \<lparr>verb = GET, url = ''jobs/ingest/750'', json_body = None, data = None, headers = []\<rparr>"
  "results_request example_job ''failedResults'' =
     \<lparr>verb = GET, url = ''jobs/ingest/750/failedResults'', json_body = None, data = None, headers = []\<rparr>"
  "results_request example_job ''successfulResults'' =
     \<lparr>verb = GET, url = ''jobs/ingest/750/successfulResults'', json_body = None, data = None, headers = []\<rparr>"
  by (simp_all add: status_request_def results_request_def get_request_def format_url_def example_job_def)

lemma example_sleep:
  "sleep n (example_world ds f s tr) = example_world ds f s (tr @ [Sleep n])"
  by (simp add: sleep_def example_world_def)

lemma example_info:
  "info example_job (example_world ds f s tr) =
     (Inr (ds ! min (status_checks example_job tr) (length ds - 1)),
      example_world ds f s (tr @ [Request (status_request example_job)]))"
  by (simp add: info_def rest_get_def rest_request_def connection_request_def example_world_def
      example_remote_def response_json_def status_request_def get_request_def format_url_def
      example_job_def)

lemma example_get_state:
  "get_state example_job (example_world ds f s tr) =
     (Inr (dict_get (ds ! min (status_checks example_job tr) (length ds - 1)) ''state''),
      example_world ds f s (tr @ [Request (status_request example_job)]))"
  by (simp add: get_state_def example_info)

lemma example_get_failed_results:
  "get_failed_results example_job (example_world ds f s tr) =
     (comprehension fail_callback (drop 1 (fst (csv_reader f))) (snd (csv_reader f)),
      example_world ds f s (tr @ [Request (results_request example_job ''failedResults'')]))"
  by (simp add: get_failed_results_def get_results_def connection_request_def example_world_def
      example_remote_def results_request_def get_request_def format_url_def example_job_def
      case_prod_beta)

lemma example_get_successful_results:
  "get_successful_results example_job (example_world ds f s tr) =
     (comprehension success_callback (drop 1 (fst (csv_reader s))) (snd (csv_reader s)),
      example_world ds f s (tr @ [Request (results_request example_job ''successfulResults'')]))"
  by (simp add: get_successful_results_def get_results_def connection_request_def example_world_def
      example_remote_def results_request_def get_request_def format_url_def example_job_def
      case_prod_beta)

lemmas csv_defs = csv_reader_def parse_reset_def parse_process_char_def start_field_def
  is_newline_def end_of_field_def parse_save_field_def parse_add_char_def field_limit_def

lemma example_failed_rows:
  "csv_reader example_failed_csv = ([[''sf__Id'', ''sf__Error''], [''001'', ''BAD'']], None)"
  by (simp add: example_failed_csv_def csv_defs)

lemma example_successful_rows:
  "csv_reader example_successful_csv = ([[''sf__Id'', ''sf__Created''], [''002'', ''true'']], None)"
  by (simp add: example_successful_csv_def csv_defs)

lemma blank_line_rows:
  "csv_reader blank_line_csv = ([[''sf__Id'', ''sf__Created''], []], None)"
  by (simp add: blank_line_csv_def csv_defs)

lemma one_column_rows:
  "csv_reader one_column_csv = ([[''sf__Id'', ''sf__Error''], [''001'']], None)"
  by (simp add: one_column_csv_def csv_defs)

text \<open>
  Claim C1. When the status checks of \<^verbatim>\<open>wait\<close> observe Open, then UploadComplete, then
  JobComplete, and JobComplete again at the check that follows the loop (the state is
  terminal), \<^verbatim>\<open>wait\<close> returns the failed results followed by the successful results. It
  has made four status checks, which is at least two, with a sleep after each of the first
  two; every record of the first part is a failure and every record of the second part is
  a success. Of the constants it is assumed that Open and UploadComplete are not in
  \<^verbatim>\<open>BULK_STATES_DONE\<close>, and that JobComplete is in it and not in \<^verbatim>\<open>BULK_STATES_FAIL\<close>.
\<close>

theorem wait_open_uploadcomplete_jobcomplete:
  assumes "''Open'' \<notin> set (BULK_STATES_DONE c)"
    and "''UploadComplete'' \<notin> set (BULK_STATES_DONE c)"
    and "''JobComplete'' \<in> set (BULK_STATES_DONE c)"
    and "''JobComplete'' \<notin> set (BULK_STATES_FAIL c)"
    and s1: "get_state j w = (Inr (JString ''Open''), w1)"
    and s2: "get_state j (sleep (POLL_SLEEP_SECONDS c) w1) = (Inr (JString ''UploadComplete''), w2)"
    and s3: "get_state j (sleep (POLL_SLEEP_SECONDS c) w2) = (Inr (JString ''JobComplete''), w3)"
    and s4: "get_state j w3 = (Inr (JString ''JobComplete''), w4)"
    and f: "get_failed_results j w4 = (Inr fs, w5)"
    and s: "get_successful_results j w5 = (Inr ss, w6)"
  shows "Job_wait c j w = Some (Inr (fs @ ss), w6) \<and>
         events_since w w6 =
           [Request (status_request j), Sleep (POLL_SLEEP_SECONDS c),
            Request (status_request j), Sleep (POLL_SLEEP_SECONDS c),
            Request (status_request j), Request (status_request j),
            Request (results_request j ''failedResults''),
            Request (results_request j ''successfulResults'')] \<and>
         2 \<le> status_checks j (events_since w w6) \<and>
         list_all is_fail fs \<and> list_all (\<lambda>r. \<not> is_fail r) ss"
proof -
  have d1: "is_done c j w = (Inr False, w1)"
    using is_done_of_get_state [OF s1, of c] assms(1) by (simp add: json_in_def)
  have d2: "is_done c j (sleep (POLL_SLEEP_SECONDS c) w1) = (Inr False, w2)"
    using is_done_of_get_state [OF s2, of c] assms(2) by (simp add: json_in_def)
  have d3: "is_done c j (sleep (POLL_SLEEP_SECONDS c) w2) = (Inr True, w3)"
    using is_done_of_get_state [OF s3, of c] assms(3) by (simp add: json_in_def)
  have loop: "wait_loop c j w = Some (Inr (), w3)"
    by (simp add: wait_loop_not_done [OF d1] wait_loop_not_done [OF d2] wait_loop_done [OF d3])
  have fin: "wait_finish c j w3 = (Inr (fs @ ss), w6)"
    using assms(4) by (simp add: wait_finish_def s4 f s json_in_def)
  have r: "Job_wait c j w = Some (Inr (fs @ ss), w6)"
    by (simp add: Job_wait_def loop fin)
  have w1: "w1 = sent (status_request j) w"
    using snd_get_state [of j w] s1 by simp
  have w2: "w2 = sent (status_request j) (sleep (POLL_SLEEP_SECONDS c) w1)"
    using snd_get_state [of j "sleep (POLL_SLEEP_SECONDS c) w1"] s2 by simp
  have w3: "w3 = sent (status_request j) (sleep (POLL_SLEEP_SECONDS c) w2)"
    using snd_get_state [of j "sleep (POLL_SLEEP_SECONDS c) w2"] s3 by simp
  have w4: "w4 = sent (status_request j) w3"
    using snd_get_state [of j w3] s4 by simp
  have w5: "w5 = sent (results_request j ''failedResults'') w4"
    using snd_get_results [of j "''failedResults''" fail_callback w4] f
    by (simp add: get_failed_results_def)
  have w6: "w6 = sent (results_request j ''successfulResults'') w5"
    using snd_get_results [of j "''successfulResults''" success_callback w5] s
    by (simp add: get_successful_results_def)
  have e: "events_since w w6 =
           [Request (status_request j), Sleep (POLL_SLEEP_SECONDS c),
            Request (status_request j), Sleep (POLL_SLEEP_SECONDS c),
            Request (status_request j), Request (status_request j),
            Request (results_request j ''failedResults''),
            Request (results_request j ''successfulResults'')]"
    by (simp add: w1 w2 w3 w4 w5 w6 events_since_def sent_def sleep_def)
  have n: "2 \<le> status_checks j (events_since w w6)"
    by (simp add: e status_checks_simps)
  from r e n failed_results_all_fail [OF f] successful_results_none_fail [OF s]
  show ?thesis by blast
qed

theorem wait_open_uploadcomplete_jobcomplete_witness:
  "Job_wait spec_settings example_job
     (example_world [descriptor ''Open'', descriptor ''UploadComplete'', descriptor ''JobComplete'']
        example_failed_csv example_successful_csv []) =
   Some (Inr ([FailResultRecord ''001'' ''BAD''] @ [SuccessResultRecord ''002'']),
     example_world [descriptor ''Open'', descriptor ''UploadComplete'', descriptor ''JobComplete'']
        example_failed_csv example_successful_csv
        [Request (status_request example_job), Sleep 5,
         Request (status_request example_job), Sleep 5,
         Request (status_request example_job), Request (status_request example_job),
         Request (results_request example_job ''failedResults''),
         Request (results_request example_job ''successfulResults'')])"
proof -
  let ?ds = "[descriptor ''Open'', descriptor ''UploadComplete'', descriptor ''JobComplete'']"
  let ?W = "example_world ?ds example_failed_csv example_successful_csv"
  let ?st = "Request (status_request example_job)"
  have c: "''Open'' \<notin> set (BULK_STATES_DONE spec_settings)"
     "''UploadComplete'' \<notin> set (BULK_STATES_DONE spec_settings)"
     "''JobComplete'' \<in> set (BULK_STATES_DONE spec_settings)"
     "''JobComplete'' \<notin> set (BULK_STATES_FAIL spec_settings)"
    by (simp_all add: spec_settings_def)
  have p: "POLL_SLEEP_SECONDS spec_settings = 5" by (simp add: spec_settings_def)
  have s1: "get_state example_job (?W []) = (Inr (JString ''Open''), ?W [?st])"
    by (simp add: example_get_state status_checks_simps descriptor_def dict_get_def)
  have s2: "get_state example_job (sleep (POLL_SLEEP_SECONDS spec_settings) (?W [?st])) =
      (Inr (JString ''UploadComplete''), ?W [?st, Sleep 5, ?st])"
    by (simp add: p example_sleep example_get_state status_checks_simps descriptor_def dict_get_def)
  have s3: "get_state example_job (sleep (POLL_SLEEP_SECONDS spec_settings) (?W [?st, Sleep 5, ?st])) =
      (Inr (JString ''JobComplete''), ?W [?st, Sleep 5, ?st, Sleep 5, ?st])"
    by (simp add: p example_sleep example_get_state status_checks_simps descriptor_def dict_get_def)
  have s4: "get_state example_job (?W [?st, Sleep 5, ?st, Sleep 5, ?st]) =
      (Inr (JString ''JobComplete''), ?W [?st, Sleep 5, ?st, Sleep 5, ?st, ?st])"
    by (simp add: example_get_state status_checks_simps descriptor_def dict_get_def)
  have f: "get_failed_results example_job (?W [?st, Sleep 5, ?st, Sleep 5, ?st, ?st]) =
      (Inr [FailResultRecord ''001'' ''BAD''],
       ?W [?st, Sleep 5, ?st, Sleep 5, ?st, ?st, Request (results_request example_job ''failedResults'')])"
    by (simp add: example_get_failed_results example_failed_rows fail_callback_def getitem_def)
  have s: "get_successful_results example_job
       (?W [?st, Sleep 5, ?st, Sleep 5, ?st, ?st, Request (results_request example_job ''failedResults'')]) =
      (Inr [SuccessResultRecord ''002''],
       ?W [?st, Sleep 5, ?st, Sleep 5, ?st, ?st, Request (results_request example_job ''failedResults''),
           Request (results_request example_job ''successfulResults'')])"
    by (simp add: example_get_successful_results example_successful_rows success_callback_def getitem_def)
  from wait_open_uploadcomplete_jobcomplete [OF c s1 s2 s3 s4 f s]
  show ?thesis by simp
qed

lemma request_urls_differ:
  "status_request j \<noteq> results_request j uri"
  by (simp add: status_request_def results_request_def get_request_def format_url_def)

text \<open>
  Claim C2. When, after \<open>n\<close> status checks that saw a job not done, the job is observed in
  state Failed, again at the check that follows the loop, and its descriptor then carries
  the error message \<open>X\<close>, \<^verbatim>\<open>wait\<close> raises \<^verbatim>\<open>BulkJobFailedError\<close> with the message \<open>X\<close>.
  All it has sent are status checks: no request went to the successfulResults or the
  failedResults sub-resource. Of the constants it is assumed that Failed is in
  \<^verbatim>\<open>BULK_STATES_DONE\<close> and in \<^verbatim>\<open>BULK_STATES_FAIL\<close>.
\<close>

theorem wait_failed_raises:
  assumes "''Failed'' \<in> set (BULK_STATES_DONE c)"
    and "''Failed'' \<in> set (BULK_STATES_FAIL c)"
    and n: "\<forall>k<n. fst (is_done c j (polls c j k w)) = Inr False"
    and s1: "get_state j (polls c j n w) = (Inr (JString ''Failed''), w1)"
    and s2: "get_state j w1 = (Inr (JString ''Failed''), w2)"
    and i: "info j w2 = (Inr d, w3)"
    and m: "dict_get d ''errorMessage'' = JString X"
  shows "Job_wait c j w = Some (Inl (BulkJobFailedError (JString X)), w3) \<and>
         events_since w w3 =
           concat (replicate n [Request (status_request j), Sleep (POLL_SLEEP_SECONDS c)])
             @ [Request (status_request j), Request (status_request j), Request (status_request j)] \<and>
         Request (results_request j ''successfulResults'') \<notin> set (events_since w w3) \<and>
         Request (results_request j ''failedResults'') \<notin> set (events_since w w3)"
proof -
  have d: "is_done c j (polls c j n w) = (Inr True, w1)"
    using is_done_of_get_state [OF s1, of c] assms(1) by (simp add: json_in_def)
  have loop: "wait_loop c j w = Some (Inr (), w1)"
    using wait_loop_polls [OF n] wait_loop_done [OF d] by simp
  have fin: "wait_finish c j w1 = (Inl (BulkJobFailedError (JString X)), w3)"
    using assms(2) by (simp add: wait_finish_def s2 i m json_in_def)
  have r: "Job_wait c j w = Some (Inl (BulkJobFailedError (JString X)), w3)"
    by (simp add: Job_wait_def loop fin)
  have w1: "w1 = sent (status_request j) (polls c j n w)"
    using snd_get_state [of j "polls c j n w"] s1 by simp
  have w2: "w2 = sent (status_request j) w1"
    using snd_get_state [of j w1] s2 by simp
  have w3: "w3 = sent (status_request j) w2"
    using snd_info [of j w2] i by simp
  have e: "events_since w w3 =
           concat (replicate n [Request (status_request j), Sleep (POLL_SLEEP_SECONDS c)])
             @ [Request (status_request j), Request (status_request j), Request (status_request j)]"
    by (simp add: w1 w2 w3 events_since_def sent_def trace_polls)
  have "Request (results_request j uri) \<notin> set (events_since w w3)" for uri
    using request_urls_differ [of j uri] by (auto simp add: e)
  with r e show ?thesis by blast
qed

lemma example_is_done:
  "is_done c example_job (example_world ds f s tr) =
     (Inr (json_in (dict_get (ds ! min (status_checks example_job tr) (length ds - 1)) ''state'')
             (BULK_STATES_DONE c)),
      example_world ds f s (tr @ [Request (status_request example_job)]))"
  by (simp add: is_done_def example_get_state)

theorem wait_failed_raises_witness:
  "Job_wait spec_settings example_job
     (example_world [descriptor ''Open'', failed_descriptor ''X''] [] [] []) =
   Some (Inl (BulkJobFailedError (JString ''X'')),
     example_world [descriptor ''Open'', failed_descriptor ''X''] [] []
        [Request (status_request example_job), Sleep 5,
         Request (status_request example_job), Request (status_request example_job),
         Request (status_request example_job)])"
proof -
  let ?ds = "[descriptor ''Open'', failed_descriptor ''X'']"
  let ?W = "example_world ?ds [] []"
  let ?st = "Request (status_request example_job)"
  have c: "''Failed'' \<in> set (BULK_STATES_DONE spec_settings)"
     "''Failed'' \<in> set (BULK_STATES_FAIL spec_settings)"
    by (simp_all add: spec_settings_def)
  have p: "POLL_SLEEP_SECONDS spec_settings = 5" by (simp add: spec_settings_def)
  have p1: "polls spec_settings example_job (Suc 0) (?W []) = ?W [?st, Sleep 5]"
    by (simp add: p example_is_done example_sleep)
  have n: "\<forall>k<Suc 0. fst (is_done spec_settings example_job (polls spec_settings example_job k (?W []))) = Inr False"
    by (simp add: example_is_done status_checks_simps descriptor_def dict_get_def json_in_def
        spec_settings_def)
  have s1: "get_state example_job (polls spec_settings example_job (Suc 0) (?W [])) =
      (Inr (JString ''Failed''), ?W [?st, Sleep 5, ?st])"
    by (simp only: p1) (simp add: example_get_state status_checks_simps failed_descriptor_def dict_get_def)
  have s2: "get_state example_job (?W [?st, Sleep 5, ?st]) =
      (Inr (JString ''Failed''), ?W [?st, Sleep 5, ?st, ?st])"
    by (simp add: example_get_state status_checks_simps failed_descriptor_def dict_get_def)
  have i: "info example_job (?W [?st, Sleep 5, ?st, ?st]) =
      (Inr (failed_descriptor ''X''), ?W [?st, Sleep 5, ?st, ?st, ?st])"
    by (simp add: example_info status_checks_simps)
  have m: "dict_get (failed_descriptor ''X'') ''errorMessage'' = JString ''X''"
    by (simp add: failed_descriptor_def dict_get_def)
  from wait_failed_raises [OF c n s1 s2 i m]
  show ?thesis by simp
qed

lemma example_complete_wait:
  "Job_wait spec_settings example_job
     (example_world [descriptor ''Open'', descriptor ''UploadComplete'', descriptor ''JobComplete'']
        example_failed_csv example_successful_csv tr) =
   Some (Inr [FailResultRecord ''001'' ''BAD'', SuccessResultRecord ''002''],
     example_world [descriptor ''Open'', descriptor ''UploadComplete'', descriptor ''JobComplete'']
        example_failed_csv example_successful_csv
        (tr @ [Request (status_request example_job), Sleep 5,
         Request (status_request example_job), Sleep 5,
         Request (status_request example_job), Request (status_request example_job),
         Request (results_request example_job ''failedResults''),
         Request (results_request example_job ''successfulResults'')]))"
  if "status_checks example_job tr = 0"
proof -
  let ?ds = "[descriptor ''Open'', descriptor ''UploadComplete'', descriptor ''JobComplete'']"
  let ?W = "example_world ?ds example_failed_csv example_successful_csv"
  let ?st = "Request (status_request example_job)"
  have sc: "status_checks example_job (tr @ es) = status_checks example_job es" for es
    using that by (simp add: status_checks_def)
  have p: "POLL_SLEEP_SECONDS spec_settings = 5" by (simp add: spec_settings_def)
  have d1: "is_done spec_settings example_job (?W tr) = (Inr False, ?W (tr @ [?st]))"
    by (simp add: example_is_done that descriptor_def dict_get_def json_in_def spec_settings_def)
  have d2: "is_done spec_settings example_job (sleep (POLL_SLEEP_SECONDS spec_settings) (?W (tr @ [?st]))) =
      (Inr False, ?W (tr @ [?st, Sleep 5, ?st]))"
    by (simp add: p example_sleep example_is_done sc status_checks_simps descriptor_def dict_get_def
        json_in_def spec_settings_def)
  have d3: "is_done spec_settings example_job (sleep (POLL_SLEEP_SECONDS spec_settings) (?W (tr @ [?st, Sleep 5, ?st]))) =
      (Inr True, ?W (tr @ [?st, Sleep 5, ?st, Sleep 5, ?st]))"
    by (simp add: p example_sleep example_is_done sc status_checks_simps descriptor_def dict_get_def
        json_in_def spec_settings_def)
  have loop: "wait_loop spec_settings example_job (?W tr) =
      Some (Inr (), ?W (tr @ [?st, Sleep 5, ?st, Sleep 5, ?st]))"
    by (simp add: wait_loop_not_done [OF d1] wait_loop_not_done [OF d2] wait_loop_done [OF d3])
  have fin: "wait_finish spec_settings example_job (?W (tr @ [?st, Sleep 5, ?st, Sleep 5, ?st])) =
      (Inr [FailResultRecord ''001'' ''BAD'', SuccessResultRecord ''002''],
       ?W (tr @ [?st, Sleep 5, ?st, Sleep 5, ?st, ?st,
           Request (results_request example_job ''failedResults''),
           Request (results_request example_job ''successfulResults'')]))"
    by (simp add: wait_finish_def example_get_state sc status_checks_simps descriptor_def dict_get_def
        json_in_def spec_settings_def example_get_failed_results example_failed_rows
        fail_callback_def getitem_def example_get_successful_results example_successful_rows
        success_callback_def)
  show ?thesis by (simp add: Job_wait_def loop fin)
qed

theorem wait_returns_only_after_terminal_state_witness:
  "\<exists>n s w1.
      (\<forall>k<n. fst (is_done spec_settings example_job
                (polls spec_settings example_job k
                  (example_world [descriptor ''Open'', descriptor ''UploadComplete'', descriptor ''JobComplete'']
                     example_failed_csv example_successful_csv []))) = Inr False) \<and>
      get_state example_job
        (polls spec_settings example_job n
           (example_world [descriptor ''Open'', descriptor ''UploadComplete'', descriptor ''JobComplete'']
              example_failed_csv example_successful_csv [])) = (Inr (JString s), w1) \<and>
      s \<in> set (BULK_STATES_DONE spec_settings) \<and>
      events_since
        (example_world [descriptor ''Open'', descriptor ''UploadComplete'', descriptor ''JobComplete'']
           example_failed_csv example_successful_csv []) w1 =
        concat (replicate n [Request (status_request example_job), Sleep (POLL_SLEEP_SECONDS spec_settings)])
          @ [Request (status_request example_job)] \<and>
      wait_finish spec_settings example_job w1 =
        (Inr [FailResultRecord ''001'' ''BAD'', SuccessResultRecord ''002''],
         example_world [descriptor ''Open'', descriptor ''UploadComplete'', descriptor ''JobComplete'']
           example_failed_csv example_successful_csv
           [Request (status_request example_job), Sleep 5,
            Request (status_request example_job), Sleep 5,
            Request (status_request example_job), Request (status_request example_job),
            Request (results_request example_job ''failedResults''),
            Request (results_request example_job ''successfulResults'')])"
proof -
  have "status_checks example_job [] = 0" by (simp add: status_checks_simps)
  from wait_returns_only_after_terminal_state [OF example_complete_wait [OF this, simplified]]
  show ?thesis .
qed

section \<open>Result sets\<close>

lemma comprehension_map:
  "(\<And>x. x \<in> set xs \<Longrightarrow> f x = Inr (g x)) \<Longrightarrow> comprehension f xs None = Inr (map g xs)"
  by (induction xs) simp_all

lemma comprehension_raises:
  assumes "x \<in> set xs" and "f x = Inl e"
    and "\<And>y e'. y \<in> set xs \<Longrightarrow> f y = Inl e' \<Longrightarrow> e' = e"
  shows "comprehension f xs t = Inl e"
  using assms
proof (induction xs)
  case Nil
  then show ?case by simp
next
  case (Cons a xs)
  show ?case
  proof (cases "f a")
    case (Inl e')
    with Cons.prems(3) [of a e'] show ?thesis by simp
  next
    case (Inr y)
    with Cons.prems(1,2) have "x \<in> set xs" by auto
    have "\<And>y e'. y \<in> set xs \<Longrightarrow> f y = Inl e' \<Longrightarrow> e' = e"
      using Cons.prems(3) by auto
    from Cons.IH [OF \<open>x \<in> set xs\<close> Cons.prems(2) this]
    have "comprehension f xs t = Inl e" .
    with Inr show ?thesis by simp
  qed
qed

lemma success_callback_cases:
  "success_callback x = (if 1 \<le> length x then Inr (SuccessResultRecord (x ! 0)) else Inl IndexError)"
  by (cases x) (simp_all add: success_callback_def getitem_def)

lemma fail_callback_cases:
  "fail_callback x = (if 2 \<le> length x then Inr (FailResultRecord (x ! 0) (x ! 1)) else Inl IndexError)"
  by (auto simp add: fail_callback_def getitem_def)

text \<open>
  Claim C8. \<^verbatim>\<open>get_successful_results\<close> and \<^verbatim>\<open>get_failed_results\<close> send the GET of their
  result set, read the text of the response as CSV, skip the first row and map every row
  after it to a record: a success from column 0, a failure from columns 0 and 1. This is
  the result when the reader ends without an error and every row after the header has the
  columns the record takes. The example of the claim is the witness.
\<close>

theorem results_skip_header_and_map_rows:
  "(connection_request (results_request j ''successfulResults'') w = (Inr rsp, w') \<and>
    csv_reader (body_text rsp) = (rows, None) \<and> (\<forall>x \<in> set (drop 1 rows). 1 \<le> length x) \<longrightarrow>
    get_successful_results j w =
      (Inr (map (\<lambda>x. SuccessResultRecord (x ! 0)) (drop 1 rows)), w')) \<and>
   (connection_request (results_request j ''failedResults'') w = (Inr rsp, w') \<and>
    csv_reader (body_text rsp) = (rows, None) \<and> (\<forall>x \<in> set (drop 1 rows). 2 \<le> length x) \<longrightarrow>
    get_failed_results j w =
      (Inr (map (\<lambda>x. FailResultRecord (x ! 0) (x ! 1)) (drop 1 rows)), w'))"
proof (intro conjI impI)
  assume a: "connection_request (results_request j ''successfulResults'') w = (Inr rsp, w') \<and>
    csv_reader (body_text rsp) = (rows, None) \<and> (\<forall>x \<in> set (drop 1 rows). 1 \<le> length x)"
  then have "comprehension success_callback (drop 1 rows) None =
      Inr (map (\<lambda>x. SuccessResultRecord (x ! 0)) (drop 1 rows))"
    by (intro comprehension_map) (simp add: success_callback_cases)
  with a show "get_successful_results j w =
      (Inr (map (\<lambda>x. SuccessResultRecord (x ! 0)) (drop 1 rows)), w')"
    by (simp add: get_successful_results_def get_results_def results_request_def)
next
  assume a: "connection_request (results_request j ''failedResults'') w = (Inr rsp, w') \<and>
    csv_reader (body_text rsp) = (rows, None) \<and> (\<forall>x \<in> set (drop 1 rows). 2 \<le> length x)"
  then have "comprehension fail_callback (drop 1 rows) None =
      Inr (map (\<lambda>x. FailResultRecord (x ! 0) (x ! 1)) (drop 1 rows))"
    by (intro comprehension_map) (simp add: fail_callback_cases)
  with a show "get_failed_results j w =
      (Inr (map (\<lambda>x. FailResultRecord (x ! 0) (x ! 1)) (drop 1 rows)), w')"
    by (simp add: get_failed_results_def get_results_def results_request_def)
qed

lemma example_results_request:
  "connection_request (results_request example_job ''failedResults'') (example_world ds f s tr) =
     (Inr \<lparr>body_text = f, body_json = None\<rparr>,
      example_world ds f s (tr @ [Request (results_request example_job ''failedResults'')]))"
  "connection_request (results_request example_job ''successfulResults'') (example_world ds f s tr) =
     (Inr \<lparr>body_text = s, body_json = None\<rparr>,
      example_world ds f s (tr @ [Request (results_request example_job ''successfulResults'')]))"
  by (simp_all add: connection_request_def example_world_def example_remote_def
      results_request_def get_request_def format_url_def example_job_def)

theorem results_skip_header_and_map_rows_witness:
  "get_failed_results example_job (example_world [] example_failed_csv example_successful_csv []) =
     (Inr [FailResultRecord ''001'' ''BAD''],
      example_world [] example_failed_csv example_successful_csv
        [Request (results_request example_job ''failedResults'')]) \<and>
   get_successful_results example_job (example_world [] example_failed_csv example_successful_csv []) =
     (Inr [SuccessResultRecord ''002''],
      example_world [] example_failed_csv example_successful_csv
        [Request (results_request example_job ''successfulResults'')])"
  using
    results_skip_header_and_map_rows [of example_job
      "example_world [] example_failed_csv example_successful_csv []"
      "\<lparr>body_text = example_successful_csv, body_json = None\<rparr>"
      "example_world [] example_failed_csv example_successful_csv
        [Request (results_request example_job ''successfulResults'')]"
      "[[''sf__Id'', ''sf__Created''], [''002'', ''true'']]"]
    results_skip_header_and_map_rows [of example_job
      "example_world [] example_failed_csv example_successful_csv []"
      "\<lparr>body_text = example_failed_csv, body_json = None\<rparr>"
      "example_world [] example_failed_csv example_successful_csv
        [Request (results_request example_job ''failedResults'')]"
      "[[''sf__Id'', ''sf__Error''], [''001'', ''BAD'']]"]
  by (simp add: example_results_request example_failed_rows example_successful_rows)

text \<open>
  Claim C10. The mapping is partial. When a row after the header has no column,
  \<^verbatim>\<open>get_successful_results\<close> raises \<^verbatim>\<open>IndexError\<close>, and when one has fewer than two
  columns, \<^verbatim>\<open>get_failed_results\<close> does, whatever the other rows are and however the
  reader ends; no list of records is returned. The witness reads a blank line (a row
  with no column) and a failure row of one column.
\<close>

theorem short_row_raises_index_error:
  "(connection_request (results_request j ''successfulResults'') w = (Inr rsp, w') \<and>
    csv_reader (body_text rsp) = (rows, t) \<and> (\<exists>x \<in> set (drop 1 rows). length x < 1) \<longrightarrow>
    get_successful_results j w = (Inl IndexError, w')) \<and>
   (connection_request (results_request j ''failedResults'') w = (Inr rsp, w') \<and>
    csv_reader (body_text rsp) = (rows, t) \<and> (\<exists>x \<in> set (drop 1 rows). length x < 2) \<longrightarrow>
    get_failed_results j w = (Inl IndexError, w'))"
proof (intro conjI impI)
  assume a: "connection_request (results_request j ''successfulResults'') w = (Inr rsp, w') \<and>
    csv_reader (body_text rsp) = (rows, t) \<and> (\<exists>x \<in> set (drop 1 rows). length x < 1)"
  then obtain x where x: "x \<in> set (drop 1 rows)" "length x < 1" by blast
  have "comprehension success_callback (drop 1 rows) t = Inl IndexError"
    by (rule comprehension_raises [OF x(1)])
       (use x(2) in \<open>auto simp add: success_callback_cases split: if_splits\<close>)
  with a show "get_successful_results j w = (Inl IndexError, w')"
    by (simp add: get_successful_results_def get_results_def results_request_def)
next
  assume a: "connection_request (results_request j ''failedResults'') w = (Inr rsp, w') \<and>
    csv_reader (body_text rsp) = (rows, t) \<and> (\<exists>x \<in> set (drop 1 rows). length x < 2)"
  then obtain x where x: "x \<in> set (drop 1 rows)" "length x < 2" by blast
  have "comprehension fail_callback (drop 1 rows) t = Inl IndexError"
    by (rule comprehension_raises [OF x(1)])
       (use x(2) in \<open>auto simp add: fail_callback_cases split: if_splits\<close>)
  with a show "get_failed_results j w = (Inl IndexError, w')"
    by (simp add: get_failed_results_def get_results_def results_request_def)
qed

theorem short_row_raises_index_error_witness:
  "get_successful_results example_job (example_world [] one_column_csv blank_line_csv []) =
     (Inl IndexError,
      example_world [] one_column_csv blank_line_csv
        [Request (results_request example_job ''successfulResults'')]) \<and>
   get_failed_results example_job (example_world [] one_column_csv blank_line_csv []) =
     (Inl IndexError,
      example_world [] one_column_csv blank_line_csv
        [Request (results_request example_job ''failedResults'')])"
  using
    short_row_raises_index_error [of example_job
      "example_world [] one_column_csv blank_line_csv []"
      "\<lparr>body_text = blank_line_csv, body_json = None\<rparr>"
      "example_world [] one_column_csv blank_line_csv
        [Request (results_request example_job ''successfulResults'')]"
      "[[''sf__Id'', ''sf__Created''], []]" None]
    short_row_raises_index_error [of example_job
      "example_world [] one_column_csv blank_line_csv []"
      "\<lparr>body_text = one_column_csv, body_json = None\<rparr>"
      "example_world [] one_column_csv blank_line_csv
        [Request (results_request example_job ''failedResults'')]"
      "[[''sf__Id'', ''sf__Error''], [''001'']]" None]
  by (simp add: example_results_request blank_line_rows one_column_rows)

section \<open>Uploading a batch\<close>

lemma rest_request_world:
  "rest_request rq w = (r, w') \<Longrightarrow> w' = sent rq w"
  using snd_rest_request [of rq w] by simp

lemma upload_put_encoded:
  "prepare_data c es = Inr d \<Longrightarrow> upload_put c j es w = rest_request (batch_request j d) w"
  by (simp add: upload_put_def rest_put_def batch_request_def)

lemma set_state_request:
  "set_state j st w = rest_request (state_request j st) w"
  by (simp add: set_state_def rest_patch_def state_request_def)

text \<open>
  Claim C5. Let the batch be encoded as \<open>d\<close>, let the PUT of \<open>d\<close> end as \<open>p\<close> and the PATCH
  of the state after it as \<open>q\<close>. When the PUT raises the JSON parse error, \<^verbatim>\<open>upload\<close> still
  sends the PATCH to \<^verbatim>\<open>BULK_STATE_UPLOAD_COMPLETE\<close> and, the PATCH answered, returns
  \<^verbatim>\<open>True\<close>. When the PUT raises any other error, \<^verbatim>\<open>upload\<close> raises it and no PATCH is
  sent. An error of the PATCH is raised too, the parse error included: only the PUT is
  inside the \<^verbatim>\<open>try\<close>.
\<close>

theorem upload_swallows_only_the_parse_error:
  assumes "prepare_data c es = Inr d"
    and "rest_put (path j) ''batches'' d [(''Content-Type'', ''text/csv'')] w = (p, w1)"
    and "set_state j (BULK_STATE_UPLOAD_COMPLETE c) w1 = (q, w2)"
  shows "(p = Inl JSONDecodeError \<and> (\<exists>r. q = Inr r) \<longrightarrow>
            Job_upload c j es w = (Inr True, w2) \<and>
            events_since w w2 =
              [Request (batch_request j d),
               Request (state_request j (BULK_STATE_UPLOAD_COMPLETE c))]) \<and>
         (\<forall>e. p = Inl e \<and> e \<noteq> JSONDecodeError \<longrightarrow>
            Job_upload c j es w = (Inl e, w1) \<and>
            events_since w w1 = [Request (batch_request j d)]) \<and>
         (\<forall>e. (p = Inl JSONDecodeError \<or> (\<exists>r. p = Inr r)) \<and> q = Inl e \<longrightarrow>
            Job_upload c j es w = (Inl e, w2)) \<and>
         ((\<exists>r. p = Inr r) \<and> (\<exists>r. q = Inr r) \<longrightarrow> Job_upload c j es w = (Inr True, w2))"
proof -
  have u: "upload_put c j es w = (p, w1)"
    using assms(1,2) by (simp add: upload_put_def)
  have w1: "w1 = sent (batch_request j d) w"
    using assms(2) by (auto simp add: rest_put_def batch_request_def dest: rest_request_world)
  have w2: "w2 = sent (state_request j (BULK_STATE_UPLOAD_COMPLETE c)) w1"
    using assms(3) by (auto simp add: set_state_request dest: rest_request_world)
  have e1: "events_since w w1 = [Request (batch_request j d)]"
    by (simp add: w1 events_since_def sent_def)
  have e2: "events_since w w2 =
      [Request (batch_request j d), Request (state_request j (BULK_STATE_UPLOAD_COMPLETE c))]"
    by (simp add: w1 w2 events_since_def sent_def)
  show ?thesis
    using e1 e2 by (auto simp add: Job_upload_def u assms(3))
qed

lemma example_put:
  "rest_put (path example_job) ''batches'' d hs (example_world ds f s tr) =
     (Inl JSONDecodeError,
      example_world ds f s (tr @ [Request (put_request (path example_job) ''batches'' d hs)]))"
  by (simp add: rest_put_def rest_request_def connection_request_def example_world_def
      example_remote_def put_request_def format_url_def example_job_def response_json_def)

lemma example_set_state:
  "set_state example_job st (example_world ds f s tr) =
     (Inr [(''id'', JString ''750'')],
      example_world ds f s (tr @ [Request (state_request example_job st)]))"
  by (simp add: set_state_def rest_patch_def rest_request_def connection_request_def
      example_world_def example_remote_def patch_request_def state_request_def format_url_def
      example_job_def response_json_def)

lemma unknown_put:
  "rest_put (path unknown_job) ''batches'' d hs (example_world ds f s tr) =
     (Inl (TransportError ''404''),
      example_world ds f s (tr @ [Request (put_request (path unknown_job) ''batches'' d hs)]))"
  by (simp add: rest_put_def rest_request_def connection_request_def example_world_def
      example_remote_def put_request_def format_url_def unknown_job_def response_json_def)

lemma unknown_set_state:
  "set_state unknown_job st (example_world ds f s tr) =
     (Inl (TransportError ''404''),
      example_world ds f s (tr @ [Request (state_request unknown_job st)]))"
  by (simp add: set_state_def rest_patch_def rest_request_def connection_request_def
      example_world_def example_remote_def patch_request_def state_request_def format_url_def
      unknown_job_def response_json_def)

lemma example_encoding:
  "prepare_data spec_settings [[(''Id'', ''a'')], [(''Id'', ''b'')]] =
     Inr (''Id'' @ [CHR 0x0A] @ ''a'' @ [CHR 0x0A] @ ''b'' @ [CHR 0x0A])"
  by (simp add: prepare_data_def spec_settings_def spec_get_csv_string_def csv_line_def
      csv_field_def csv_cell_def)

text \<open>A value holding a line feed is quoted, and read back as one row.\<close>

lemma example_encoding_quoted:
  "prepare_data spec_settings [[(''Id'', ''a'' @ [CHR 0x0A] @ ''b'')]] =
     Inr (''Id'' @ [CHR 0x0A, CHR 0x22] @ ''a'' @ [CHR 0x0A] @ ''b'' @ [CHR 0x22, CHR 0x0A])"
  "csv_reader (''Id'' @ [CHR 0x0A, CHR 0x22] @ ''a'' @ [CHR 0x0A] @ ''b'' @ [CHR 0x22, CHR 0x0A]) =
     ([[''Id''], [''a'' @ [CHR 0x0A] @ ''b'']], None)"
   apply (simp add: prepare_data_def spec_settings_def spec_get_csv_string_def csv_line_def
      csv_field_def csv_cell_def)
  apply (simp add: csv_defs)
  done

theorem upload_swallows_only_the_parse_error_witness:
  "Job_upload spec_settings example_job [[(''Id'', ''a'')], [(''Id'', ''b'')]]
     (example_world [] [] [] []) =
     (Inr True,
      example_world [] [] []
        [Request (batch_request example_job (''Id'' @ [CHR 0x0A] @ ''a'' @ [CHR 0x0A] @ ''b'' @ [CHR 0x0A])),
         Request (state_request example_job ''UploadComplete'')]) \<and>
   Job_upload spec_settings unknown_job [[(''Id'', ''a'')], [(''Id'', ''b'')]]
     (example_world [] [] [] []) =
     (Inl (TransportError ''404''),
      example_world [] [] []
        [Request (batch_request unknown_job (''Id'' @ [CHR 0x0A] @ ''a'' @ [CHR 0x0A] @ ''b'' @ [CHR 0x0A]))])"
proof -
  have u: "BULK_STATE_UPLOAD_COMPLETE spec_settings = ''UploadComplete''"
    by (simp add: spec_settings_def)
  from upload_swallows_only_the_parse_error
    [OF example_encoding example_put [where ds = "[]" and f = "[]" and s = "[]" and tr = "[]"]
        example_set_state]
  have a: "Job_upload spec_settings example_job [[(''Id'', ''a'')], [(''Id'', ''b'')]]
     (example_world [] [] [] []) =
     (Inr True,
      example_world [] [] []
        [Request (batch_request example_job (''Id'' @ [CHR 0x0A] @ ''a'' @ [CHR 0x0A] @ ''b'' @ [CHR 0x0A])),
         Request (state_request example_job ''UploadComplete'')])"
    by (simp add: u batch_request_def)
  from upload_swallows_only_the_parse_error
    [OF example_encoding unknown_put [where ds = "[]" and f = "[]" and s = "[]" and tr = "[]"]
        unknown_set_state]
  have b: "Job_upload spec_settings unknown_job [[(''Id'', ''a'')], [(''Id'', ''b'')]]
     (example_world [] [] [] []) =
     (Inl (TransportError ''404''),
      example_world [] [] []
        [Request (batch_request unknown_job (''Id'' @ [CHR 0x0A] @ ''a'' @ [CHR 0x0A] @ ''b'' @ [CHR 0x0A]))])"
    by (simp add: batch_request_def)
  from a b show ?thesis by simp
qed

section \<open>The operations of \<^verbatim>\<open>Bulk\<close>\<close>

lemma creation_request_post:
  "post_request Bulk_path
     [(''columnDelimiter'', JString ''COMMA''), (''contentType'', JString ''CSV''),
      (''lineEnding'', JString ''LF''), (''object'', JString obj),
      (''operation'', JString op), (''externalIdFieldName'', x)] = creation_request op obj x"
  by (simp add: post_request_def Bulk_path_def format_url_def creation_request_def)

lemma create_job_request:
  "create_job op obj x w =
     (case rest_request (creation_request op obj x) w of
        (Inl e, w') \<Rightarrow> (Inl e, w')
      | (Inr result, w') \<Rightarrow> (Job_init (dict_get result ''id''), w'))"
  by (simp add: create_job_def rest_post_def creation_request_post)

lemma snd_create_job: "snd (create_job op obj x w) = sent (creation_request op obj x) w"
  using snd_rest_request [of "creation_request op obj x" w]
  by (auto simp add: create_job_request split: prod.splits sum.splits)

lemma upload_returns_True: "Job_upload c j es w = (Inr b, w') \<Longrightarrow> b"
  by (auto simp add: Job_upload_def split: prod.splits sum.splits if_splits)

lemma snd_upload_put:
  "snd (upload_put c j es w) =
     (case prepare_data c es of Inl e \<Rightarrow> w | Inr d \<Rightarrow> sent (batch_request j d) w)"
  by (simp add: upload_put_def rest_put_def batch_request_def snd_rest_request split: sum.splits)

lemma upload_extends:
  assumes "prepare_data c es = Inr d"
  shows "\<exists>rest. trace (snd (Job_upload c j es w)) = trace w @ Request (batch_request j d) # rest"
proof -
  obtain p w1 where u: "upload_put c j es w = (p, w1)" by (cases "upload_put c j es w")
  with snd_upload_put [of c j es w] assms have w1: "w1 = sent (batch_request j d) w" by simp
  obtain q w2 where q: "set_state j (BULK_STATE_UPLOAD_COMPLETE c) w1 = (q, w2)"
    by (cases "set_state j (BULK_STATE_UPLOAD_COMPLETE c) w1")
  then have w2: "w2 = sent (state_request j (BULK_STATE_UPLOAD_COMPLETE c)) w1"
    by (auto simp add: set_state_request dest: rest_request_world)
  have "snd (Job_upload c j es w) = w1 \<or> snd (Job_upload c j es w) = w2"
    by (auto simp add: Job_upload_def u q split: sum.splits)
  then show ?thesis
    by (auto simp add: w1 w2 sent_def)
qed

lemma wait_finish_extends: "\<exists>rest. trace (snd (wait_finish c j w)) = trace w @ rest"
proof -
  obtain r1 w1 where a: "get_state j w = (r1, w1)" by (cases "get_state j w")
  then have w1: "w1 = sent (status_request j) w" using snd_get_state [of j w] by simp
  obtain r2 w2 where b: "info j w1 = (r2, w2)" by (cases "info j w1")
  then have w2: "w2 = sent (status_request j) w1" using snd_info [of j w1] by simp
  obtain r3 w3 where c: "get_failed_results j w1 = (r3, w3)" by (cases "get_failed_results j w1")
  then have w3: "w3 = sent (results_request j ''failedResults'') w1"
    using snd_get_results [of j "''failedResults''" fail_callback w1]
    by (simp add: get_failed_results_def)
  obtain r4 w4 where d: "get_successful_results j w3 = (r4, w4)"
    by (cases "get_successful_results j w3")
  then have w4: "w4 = sent (results_request j ''successfulResults'') w3"
    using snd_get_results [of j "''successfulResults''" success_callback w3]
    by (simp add: get_successful_results_def)
  have "snd (wait_finish c j w) \<in> {w1, w2, w3, w4}"
    by (auto simp add: wait_finish_def a b c d split: sum.splits)
  then show ?thesis
    by (auto simp add: w1 w2 w3 w4 sent_def)
qed

lemma wait_extends:
  assumes "Job_wait c j w = Some (r, w')"
  shows "\<exists>rest. trace w' = trace w @ rest"
proof -
  from assms obtain x w1 where l: "wait_loop c j w = Some (x, w1)"
    by (auto simp add: Job_wait_def split: option.splits)
  from wait_loop_exit [OF l] obtain n r1 w1' where
    "is_done c j (polls c j n w) = (r1, w1')" "(x, w1) = (map_sum id (\<lambda>_. ()) r1, w1')" by blast
  then have "w1 = sent (status_request j) (polls c j n w)"
    using snd_is_done [of c j "polls c j n w"] by simp
  then have t1: "\<exists>rest. trace w1 = trace w @ rest"
    by (simp add: sent_def trace_polls)
  from assms l have "w' = w1 \<or> w' = snd (wait_finish c j w1)"
    by (auto simp add: Job_wait_def split: sum.splits)
  with t1 wait_finish_extends [of c j w1] show ?thesis by auto
qed

lemma operation_starts_with_creation:
  assumes "execute_operation c op obj es x w = Some (r, w')"
  shows "\<exists>rest. events_since w w' = Request (creation_request op obj x) # rest"
proof -
  obtain r1 w1 where a: "create_job op obj x w = (r1, w1)" by (cases "create_job op obj x w")
  then have w1: "trace w1 = trace w @ [Request (creation_request op obj x)]"
    using snd_create_job [of op obj x w] by (simp add: sent_def)
  show ?thesis
  proof (cases r1)
    case (Inl e)
    with assms a have "w' = w1" by (simp add: execute_operation_def)
    with w1 show ?thesis by (simp add: events_since_def)
  next
    case (Inr j)
    obtain r2 w2 where b: "Job_upload c j es w1 = (r2, w2)" by (cases "Job_upload c j es w1")
    have "\<exists>rest. trace w2 = trace w1 @ rest"
    proof (cases "prepare_data c es")
      case (Inl e)
      then show ?thesis
        using b snd_upload_put [of c j es w1]
        by (auto simp add: Job_upload_def set_state_request sent_def
            split: prod.splits sum.splits if_splits dest!: rest_request_world)
    next
      case (Inr d)
      from upload_extends [OF this, of j w1] b show ?thesis by auto
    qed
    then obtain rest2 where w2: "trace w2 = trace w1 @ rest2" by blast
    show ?thesis
    proof (cases r2)
      case (Inl e)
      with assms a b Inr have "w' = w2" by (simp add: execute_operation_def)
      with w1 w2 show ?thesis by (simp add: events_since_def)
    next
      case r2: (Inr b')
      with assms a b Inr have "Job_wait c j w2 = Some (r, w')" by (simp add: execute_operation_def)
      from wait_extends [OF this] w1 w2 show ?thesis by (auto simp add: events_since_def)
    qed
  qed
qed

lemma operation_steps:
  "execute_operation c op obj es x w = Some (Inr rs, w') \<longleftrightarrow>
   (\<exists>j w1 w2. create_job op obj x w = (Inr j, w1) \<and> Job_upload c j es w1 = (Inr True, w2) \<and>
      Job_wait c j w2 = Some (Inr rs, w'))"
  by (auto simp add: execute_operation_def split: prod.splits sum.splits dest: upload_returns_True)

lemma example_create_job:
  "create_job op obj x (example_world ds f s tr) =
     (Inr example_job, example_world ds f s (tr @ [Request (creation_request op obj x)]))"
  by (simp add: create_job_request rest_request_def connection_request_def example_world_def
      example_remote_def creation_request_def response_json_def dict_get_def Job_init_def
      example_job_def)

lemma example_upload:
  "prepare_data c es = Inr d \<Longrightarrow>
   Job_upload c example_job es (example_world ds f s tr) =
     (Inr True,
      example_world ds f s
        (tr @ [Request (batch_request example_job d),
               Request (state_request example_job (BULK_STATE_UPLOAD_COMPLETE c))]))"
  by (simp add: Job_upload_def upload_put_def example_put example_set_state batch_request_def)

lemma example_no_status_checks:
  "status_checks example_job
     [Request (creation_request op obj x), Request (batch_request example_job d),
      Request (state_request example_job st)] = 0"
  by (simp add: status_checks_simps creation_request_def batch_request_def state_request_def
      put_request_def patch_request_def example_requests)

lemma example_operation:
  assumes "prepare_data spec_settings es = Inr d"
  shows "execute_operation spec_settings op obj es x
     (example_world [descriptor ''Open'', descriptor ''UploadComplete'', descriptor ''JobComplete'']
        example_failed_csv example_successful_csv []) =
   Some (Inr [FailResultRecord ''001'' ''BAD'', SuccessResultRecord ''002''],
     example_world [descriptor ''Open'', descriptor ''UploadComplete'', descriptor ''JobComplete'']
        example_failed_csv example_successful_csv
        [Request (creation_request op obj x), Request (batch_request example_job d),
         Request (state_request example_job ''UploadComplete''),
         Request (status_request example_job), Sleep 5,
         Request (status_request example_job), Sleep 5,
         Request (status_request example_job), Request (status_request example_job),
         Request (results_request example_job ''failedResults''),
         Request (results_request example_job ''successfulResults'')])"
proof -
  have u: "BULK_STATE_UPLOAD_COMPLETE spec_settings = ''UploadComplete''"
    by (simp add: spec_settings_def)
  show ?thesis
    by (simp add: execute_operation_def example_create_job example_upload [OF assms] u
        example_complete_wait [OF example_no_status_checks])
qed

text \<open>
  Claim C4. \<^verbatim>\<open>insert\<close>, \<^verbatim>\<open>update\<close>, \<^verbatim>\<open>upsert\<close> and \<^verbatim>\<open>delete\<close> create the job, upload the entries
  to it and then wait for it, in the world each step leaves to the next. Once the job is
  created and the upload has returned, the value of the call is the value of \<^verbatim>\<open>wait\<close> on
  that job, whatever it is (a list of result records, an error, or no return at all); and
  a call that returns a list of result records has created a job, uploaded to it, and got
  that list from \<^verbatim>\<open>wait\<close>.
\<close>

theorem operations_create_upload_wait:
  "(create_job ''insert'' obj JNull w = (Inr j, w1) \<and> Job_upload c j es w1 = (Inr True, w2) \<longrightarrow>
      Bulk_insert c obj es w = Job_wait c j w2) \<and>
   (create_job ''update'' obj JNull w = (Inr j, w1) \<and> Job_upload c j es w1 = (Inr True, w2) \<longrightarrow>
      Bulk_update c obj es w = Job_wait c j w2) \<and>
   (create_job ''upsert'' obj (case x of None \<Rightarrow> JString ''Id'' | Some v \<Rightarrow> v) w = (Inr j, w1) \<and>
    Job_upload c j es w1 = (Inr True, w2) \<longrightarrow>
      Bulk_upsert c obj es x w = Job_wait c j w2) \<and>
   (create_job ''delete'' obj JNull w = (Inr j, w1) \<and>
    Job_upload c j (map (\<lambda>i. [(''Id'', i)]) ids) w1 = (Inr True, w2) \<longrightarrow>
      Bulk_delete c obj ids w = Job_wait c j w2) \<and>
   (Bulk_insert c obj es w = Some (Inr rs, w') \<longrightarrow>
      (\<exists>j w1 w2. create_job ''insert'' obj JNull w = (Inr j, w1) \<and>
         Job_upload c j es w1 = (Inr True, w2) \<and> Job_wait c j w2 = Some (Inr rs, w'))) \<and>
   (Bulk_update c obj es w = Some (Inr rs, w') \<longrightarrow>
      (\<exists>j w1 w2. create_job ''update'' obj JNull w = (Inr j, w1) \<and>
         Job_upload c j es w1 = (Inr True, w2) \<and> Job_wait c j w2 = Some (Inr rs, w'))) \<and>
   (Bulk_upsert c obj es x w = Some (Inr rs, w') \<longrightarrow>
      (\<exists>j w1 w2.
         create_job ''upsert'' obj (case x of None \<Rightarrow> JString ''Id'' | Some v \<Rightarrow> v) w = (Inr j, w1) \<and>
         Job_upload c j es w1 = (Inr True, w2) \<and> Job_wait c j w2 = Some (Inr rs, w'))) \<and>
   (Bulk_delete c obj ids w = Some (Inr rs, w') \<longrightarrow>
      (\<exists>j w1 w2. create_job ''delete'' obj JNull w = (Inr j, w1) \<and>
         Job_upload c j (map (\<lambda>i. [(''Id'', i)]) ids) w1 = (Inr True, w2) \<and>
         Job_wait c j w2 = Some (Inr rs, w')))"
proof -
  have run: "execute_operation c op obj' es' y w = Job_wait c j w2"
    if "create_job op obj' y w = (Inr j, w1)" "Job_upload c j es' w1 = (Inr True, w2)"
    for op obj' es' y
    using that by (simp add: execute_operation_def)
  show ?thesis
    unfolding Bulk_insert_def Bulk_update_def Bulk_upsert_def Bulk_delete_def operation_steps
    by (intro conjI impI; (elim conjE)?; (rule run; assumption)?)
qed

theorem operations_create_upload_wait_witness:
  "Bulk_insert spec_settings ''Account'' [[(''Id'', ''a'')], [(''Id'', ''b'')]]
     (example_world [descriptor ''Open'', descriptor ''UploadComplete'', descriptor ''JobComplete'']
        example_failed_csv example_successful_csv []) =
   Some (Inr [FailResultRecord ''001'' ''BAD'', SuccessResultRecord ''002''],
     example_world [descriptor ''Open'', descriptor ''UploadComplete'', descriptor ''JobComplete'']
        example_failed_csv example_successful_csv
        [Request (creation_request ''insert'' ''Account'' JNull),
         Request (batch_request example_job (''Id'' @ [CHR 0x0A] @ ''a'' @ [CHR 0x0A] @ ''b'' @ [CHR 0x0A])),
         Request (state_request example_job ''UploadComplete''),
         Request (status_request example_job), Sleep 5,
         Request (status_request example_job), Sleep 5,
         Request (status_request example_job), Request (status_request example_job),
         Request (results_request example_job ''failedResults''),
         Request (results_request example_job ''successfulResults'')])"
proof -
  let ?ds = "[descriptor ''Open'', descriptor ''UploadComplete'', descriptor ''JobComplete'']"
  let ?W = "example_world ?ds example_failed_csv example_successful_csv"
  let ?d = "''Id'' @ [CHR 0x0A] @ ''a'' @ [CHR 0x0A] @ ''b'' @ [CHR 0x0A]"
  let ?tr = "[Request (creation_request ''insert'' ''Account'' JNull),
              Request (batch_request example_job ?d),
              Request (state_request example_job ''UploadComplete'')]"
  have u: "BULK_STATE_UPLOAD_COMPLETE spec_settings = ''UploadComplete''"
    by (simp add: spec_settings_def)
  have a: "create_job ''insert'' ''Account'' JNull (?W []) =
      (Inr example_job, ?W [Request (creation_request ''insert'' ''Account'' JNull)])"
    by (simp add: example_create_job)
  have b: "Job_upload spec_settings example_job [[(''Id'', ''a'')], [(''Id'', ''b'')]]
      (?W [Request (creation_request ''insert'' ''Account'' JNull)]) = (Inr True, ?W ?tr)"
    using example_upload [OF example_encoding] by (simp add: u)
  from operations_create_upload_wait
    [where obj = "''Account''" and w = "?W []" and j = example_job and c = spec_settings
       and es = "[[(''Id'', ''a'')], [(''Id'', ''b'')]]"
       and ?w1.0 = "?W [Request (creation_request ''insert'' ''Account'' JNull)]"
       and ?w2.0 = "?W ?tr"]
    a b
  have "Bulk_insert spec_settings ''Account'' [[(''Id'', ''a'')], [(''Id'', ''b'')]] (?W []) =
      Job_wait spec_settings example_job (?W ?tr)" by blast
  then show ?thesis
    using example_complete_wait [OF example_no_status_checks,
        of "''insert''" "''Account''" JNull ?d "''UploadComplete''"]
    by simp
qed

lemma wait_loop_forever:
  assumes "\<And>n. fst (is_done c j (polls c j n w)) = Inr False"
  shows "wait_loop c j w = None"
proof (cases "wait_loop c j w")
  case None
  then show ?thesis .
next
  case (Some y)
  from wait_loop_exit [OF Some] obtain n r w1 where
    "is_done c j (polls c j n w) = (r, w1)" "r \<noteq> Inr False" by blast
  with assms [of n] show ?thesis by simp
qed

lemma example_polls:
  "polls c example_job n (example_world ds f s tr) =
     example_world ds f s
       (tr @ concat (replicate n [Request (status_request example_job), Sleep (POLL_SLEEP_SECONDS c)]))"
  by (induction n arbitrary: tr) (simp_all add: example_is_done example_sleep)

lemma example_open_forever:
  "Job_wait spec_settings example_job (example_world [descriptor ''Open''] f s tr) = None"
proof -
  have "wait_loop spec_settings example_job (example_world [descriptor ''Open''] f s tr) = None"
    by (rule wait_loop_forever)
      (simp add: example_polls example_is_done descriptor_def dict_get_def json_in_def
        spec_settings_def)
  then show ?thesis by (simp add: Job_wait_def)
qed

lemma upload_trace:
  assumes "prepare_data c es = Inr d" and "Job_upload c j es w = (u, w2)"
  shows "trace w2 = trace w @ [Request (batch_request j d)] \<or>
         trace w2 = trace w @ [Request (batch_request j d),
                               Request (state_request j (BULK_STATE_UPLOAD_COMPLETE c))]"
proof -
  obtain p w1 where p: "upload_put c j es w = (p, w1)" by (cases "upload_put c j es w")
  with snd_upload_put [of c j es w] assms(1) have w1: "w1 = sent (batch_request j d) w" by simp
  obtain q w3 where q: "set_state j (BULK_STATE_UPLOAD_COMPLETE c) w1 = (q, w3)"
    by (cases "set_state j (BULK_STATE_UPLOAD_COMPLETE c) w1")
  then have w3: "w3 = sent (state_request j (BULK_STATE_UPLOAD_COMPLETE c)) w1"
    by (auto simp add: set_state_request dest: rest_request_world)
  from assms(2) have "w2 = w1 \<or> w2 = w3"
    by (auto simp add: Job_upload_def p q split: sum.splits if_splits)
  then show ?thesis
    by (auto simp add: w1 w3 sent_def)
qed

text \<open>
  Claim C6. \<^verbatim>\<open>delete(object_name, ids)\<close> uploads the records \<^verbatim>\<open>{'Id': id}\<close>, one for each id in
  the order of \<^verbatim>\<open>ids\<close>. Once the job is created, with \<open>d\<close> the encoding of these records,
  the upload that \<^verbatim>\<open>delete\<close> makes ends in a world where the requests sent since the call
  are the creation of the job, then the PUT of \<open>d\<close> to the batches sub-resource of the job
  with the content type \<^verbatim>\<open>text/csv\<close>, then at most the PATCH of the state. This needs no
  return of \<^verbatim>\<open>wait\<close>: \<^verbatim>\<open>delete\<close> goes on from that world as \<^verbatim>\<open>wait\<close> does, so after any
  number of rounds of the loop the PUT of \<open>d\<close> is the second request sent, and it is so in
  the world of every call that returns. The encoder is the parameter \<^verbatim>\<open>get_csv_string\<close>; on
  the ids a and b the payload is the encoding of \<^verbatim>\<open>[{'Id': 'a'}, {'Id': 'b'}]\<close>.
\<close>

theorem delete_uploads_id_records:
  assumes "create_job ''delete'' obj JNull w = (Inr j, w1)"
    and "prepare_data c (map (\<lambda>i. [(''Id'', i)]) ids) = Inr d"
  shows "\<exists>u w2 rest.
     Job_upload c j (map (\<lambda>i. [(''Id'', i)]) ids) w1 = (u, w2) \<and>
     events_since w w2 =
       Request (creation_request ''delete'' obj JNull) # Request (batch_request j d) # rest \<and>
     (rest = [] \<or> rest = [Request (state_request j (BULK_STATE_UPLOAD_COMPLETE c))]) \<and>
     Bulk_delete c obj ids w =
       (case u of Inl e \<Rightarrow> Some (Inl e, w2) | Inr b \<Rightarrow> Job_wait c j w2) \<and>
     (\<forall>n. events_since w (polls c j n w2) =
        Request (creation_request ''delete'' obj JNull) # Request (batch_request j d) # rest @
        concat (replicate n [Request (status_request j), Sleep (POLL_SLEEP_SECONDS c)])) \<and>
     (\<forall>r w'. Bulk_delete c obj ids w = Some (r, w') \<longrightarrow>
        (\<exists>more. events_since w w' =
           Request (creation_request ''delete'' obj JNull) # Request (batch_request j d) #
           rest @ more)) \<and>
     batch_request j d =
       \<lparr>verb = PUT, url = path j @ ''/batches'', json_body = None, data = Some d,
        headers = [(''Content-Type'', ''text/csv'')]\<rparr>"
proof -
  let ?es = "map (\<lambda>i. [(''Id'', i)]) ids"
  let ?cr = "Request (creation_request ''delete'' obj JNull)"
  let ?put = "Request (batch_request j d)"
  obtain u w2 where up: "Job_upload c j ?es w1 = (u, w2)" by (cases "Job_upload c j ?es w1")
  from assms(1) have t1: "trace w1 = trace w @ [?cr]"
    using snd_create_job [of "''delete''" obj JNull w] by (simp add: sent_def)
  from upload_trace [OF assms(2) up] obtain rest where
    rest: "rest = [] \<or> rest = [Request (state_request j (BULK_STATE_UPLOAD_COMPLETE c))]"
    and t2: "trace w2 = trace w1 @ ?put # rest" by auto
  have e2: "events_since w w2 = ?cr # ?put # rest"
    by (simp add: events_since_def t1 t2)
  have run: "Bulk_delete c obj ids w =
      (case u of Inl e \<Rightarrow> Some (Inl e, w2) | Inr b \<Rightarrow> Job_wait c j w2)"
    by (simp add: Bulk_delete_def execute_operation_def assms(1) up split: sum.splits)
  have ps: "events_since w (polls c j n w2) = ?cr # ?put # rest @
        concat (replicate n [Request (status_request j), Sleep (POLL_SLEEP_SECONDS c)])" for n
    by (simp add: events_since_def trace_polls t1 t2)
  have ret: "\<exists>more. events_since w w' = ?cr # ?put # rest @ more"
    if "Bulk_delete c obj ids w = Some (r, w')" for r w'
  proof (cases u)
    case (Inl e)
    with that run have "w' = w2" by simp
    with e2 show ?thesis by simp
  next
    case (Inr b)
    with that run have "Job_wait c j w2 = Some (r, w')" by simp
    from wait_extends [OF this] obtain more where "trace w' = trace w2 @ more" ..
    then show ?thesis by (simp add: events_since_def t1 t2)
  qed
  have rq: "batch_request j d =
       \<lparr>verb = PUT, url = path j @ ''/batches'', json_body = None, data = Some d,
        headers = [(''Content-Type'', ''text/csv'')]\<rparr>"
    by (simp add: batch_request_def put_request_def format_url_def)
  from up e2 rest run ps ret rq show ?thesis by blast
qed

theorem delete_uploads_id_records_witness:
  "Bulk_delete spec_settings ''Account'' [''a'', ''b''] (example_world [descriptor ''Open''] [] [] []) =
     None \<and>
   events_since (example_world [descriptor ''Open''] [] [] [])
     (snd (Job_upload spec_settings example_job [[(''Id'', ''a'')], [(''Id'', ''b'')]]
        (snd (create_job ''delete'' ''Account'' JNull (example_world [descriptor ''Open''] [] [] []))))) =
     [Request (creation_request ''delete'' ''Account'' JNull),
      Request (batch_request example_job (''Id'' @ [CHR 0x0A] @ ''a'' @ [CHR 0x0A] @ ''b'' @ [CHR 0x0A])),
      Request (state_request example_job ''UploadComplete'')] \<and>
   (\<exists>r w' more.
      Bulk_delete spec_settings ''Account'' [''a'', ''b'']
        (example_world [descriptor ''Open'', descriptor ''UploadComplete'', descriptor ''JobComplete'']
           example_failed_csv example_successful_csv []) = Some (r, w') \<and>
      events_since
        (example_world [descriptor ''Open'', descriptor ''UploadComplete'', descriptor ''JobComplete'']
           example_failed_csv example_successful_csv []) w' =
        Request (creation_request ''delete'' ''Account'' JNull) #
        Request (batch_request example_job (''Id'' @ [CHR 0x0A] @ ''a'' @ [CHR 0x0A] @ ''b'' @ [CHR 0x0A])) #
        more)"
proof -
  let ?ds = "[descriptor ''Open'', descriptor ''UploadComplete'', descriptor ''JobComplete'']"
  let ?O = "example_world [descriptor ''Open''] [] []"
  let ?W = "example_world ?ds example_failed_csv example_successful_csv"
  let ?d = "''Id'' @ [CHR 0x0A] @ ''a'' @ [CHR 0x0A] @ ''b'' @ [CHR 0x0A]"
  let ?cr = "Request (creation_request ''delete'' ''Account'' JNull)"
  let ?put = "Request (batch_request example_job ?d)"
  let ?patch = "Request (state_request example_job ''UploadComplete'')"
  have e: "prepare_data spec_settings (map (\<lambda>i. [(''Id'', i)]) [''a'', ''b'']) = Inr ?d"
    using example_encoding by simp
  have u: "BULK_STATE_UPLOAD_COMPLETE spec_settings = ''UploadComplete''"
    by (simp add: spec_settings_def)
  have up: "Job_upload spec_settings example_job (map (\<lambda>i. [(''Id'', i)]) [''a'', ''b''])
      (example_world ds f s [?cr]) = (Inr True, example_world ds f s [?cr, ?put, ?patch])" for ds f s
    using example_upload [OF e, where tr = "[?cr]"] by (simp add: u)
  from delete_uploads_id_records
    [OF example_create_job [where obj = "''Account''" and ds = "[descriptor ''Open'']" and f = "[]"
        and s = "[]" and tr = "[]"] e]
  obtain v w2 where
    j: "Job_upload spec_settings example_job (map (\<lambda>i. [(''Id'', i)]) [''a'', ''b''])
          (?O ([] @ [?cr])) = (v, w2)"
    and bd: "Bulk_delete spec_settings ''Account'' [''a'', ''b''] (?O []) =
      (case v of Inl e \<Rightarrow> Some (Inl e, w2) | Inr b \<Rightarrow> Job_wait spec_settings example_job w2)"
    by blast
  from j up [of "[descriptor ''Open'']" "[]" "[]"]
  have "v = Inr True" "w2 = ?O [?cr, ?put, ?patch]" by simp_all
  with bd have a: "Bulk_delete spec_settings ''Account'' [''a'', ''b''] (?O []) = None"
    by (simp add: example_open_forever)
  have b: "events_since (?O [])
     (snd (Job_upload spec_settings example_job [[(''Id'', ''a'')], [(''Id'', ''b'')]]
        (snd (create_job ''delete'' ''Account'' JNull (?O [])))))  = [?cr, ?put, ?patch]"
  proof -
    have "snd (Job_upload spec_settings example_job [[(''Id'', ''a'')], [(''Id'', ''b'')]]
        (snd (create_job ''delete'' ''Account'' JNull (?O [])))) = ?O [?cr, ?put, ?patch]"
      using up [of "[descriptor ''Open'']" "[]" "[]"] by (simp add: example_create_job)
    then show ?thesis by (simp add: events_since_def example_world_def)
  qed
  have r: "Bulk_delete spec_settings ''Account'' [''a'', ''b''] (?W []) =
      Some (Inr [FailResultRecord ''001'' ''BAD'', SuccessResultRecord ''002''],
        ?W [?cr, ?put, ?patch,
           Request (status_request example_job), Sleep 5,
           Request (status_request example_job), Sleep 5,
           Request (status_request example_job), Request (status_request example_job),
           Request (results_request example_job ''failedResults''),
           Request (results_request example_job ''successfulResults'')])"
    unfolding Bulk_delete_def by (rule example_operation [OF e])
  from delete_uploads_id_records
    [OF example_create_job [where obj = "''Account''" and ds = ?ds and f = example_failed_csv
        and s = example_successful_csv and tr = "[]"] e] r
  have c: "\<exists>r w' more. Bulk_delete spec_settings ''Account'' [''a'', ''b''] (?W []) = Some (r, w') \<and>
      events_since (?W []) w' = ?cr # ?put # more"
    by blast
  from a b c show ?thesis by blast
qed

text \<open>
  Claim C7. \<^verbatim>\<open>_create_job\<close> sends exactly one request, a POST to \<^verbatim>\<open>jobs/ingest\<close> whose JSON
  body has columnDelimiter COMMA, contentType CSV, lineEnding LF, the object name, the
  operation and externalIdFieldName; when the request succeeds the job is built from the
  \<^verbatim>\<open>id\<close> of the response, with the path \<^verbatim>\<open>jobs/ingest/\<close> followed by that id. The first request
  of an operation that returns is this creation request, with externalIdFieldName null for
  insert, update and delete, \<^verbatim>\<open>'Id'\<close> for an upsert that leaves the field out, and the given
  field for an upsert that names one.
\<close>

theorem job_creation_request:
  "snd (create_job op obj x w) = sent (creation_request op obj x) w \<and>
   verb (creation_request op obj x) = POST \<and>
   url (creation_request op obj x) = ''jobs/ingest'' \<and>
   json_body (creation_request op obj x) =
     Some [(''columnDelimiter'', JString ''COMMA''), (''contentType'', JString ''CSV''),
           (''lineEnding'', JString ''LF''), (''object'', JString obj),
           (''operation'', JString op), (''externalIdFieldName'', x)] \<and>
   data (creation_request op obj x) = None \<and>
   (rest_request (creation_request op obj x) w = (Inr result, w1) \<longrightarrow>
      create_job op obj x w = (Job_init (dict_get result ''id''), w1)) \<and>
   Job_init (JString i) = Inr \<lparr>path = ''jobs/ingest/'' @ i, job_id = i\<rparr> \<and>
   (Bulk_insert c obj es w = Some (r, w') \<longrightarrow>
      (\<exists>rest. events_since w w' = Request (creation_request ''insert'' obj JNull) # rest)) \<and>
   (Bulk_update c obj es w = Some (r, w') \<longrightarrow>
      (\<exists>rest. events_since w w' = Request (creation_request ''update'' obj JNull) # rest)) \<and>
   (Bulk_delete c obj ids w = Some (r, w') \<longrightarrow>
      (\<exists>rest. events_since w w' = Request (creation_request ''delete'' obj JNull) # rest)) \<and>
   (Bulk_upsert c obj es None w = Some (r, w') \<longrightarrow>
      (\<exists>rest. events_since w w' =
         Request (creation_request ''upsert'' obj (JString ''Id'')) # rest)) \<and>
   (Bulk_upsert c obj es (Some f) w = Some (r, w') \<longrightarrow>
      (\<exists>rest. events_since w w' = Request (creation_request ''upsert'' obj f) # rest))"
proof -
  have a: "snd (create_job op obj x w) = sent (creation_request op obj x) w"
    by (rule snd_create_job)
  have b: "rest_request (creation_request op obj x) w = (Inr result, w1) \<longrightarrow>
      create_job op obj x w = (Job_init (dict_get result ''id''), w1)"
    by (simp add: create_job_request)
  have c: "Job_init (JString i) = Inr \<lparr>path = ''jobs/ingest/'' @ i, job_id = i\<rparr>"
    by (simp add: Job_init_def)
  have d: "Bulk_insert c obj es w = Some (r, w') \<longrightarrow>
      (\<exists>rest. events_since w w' = Request (creation_request ''insert'' obj JNull) # rest)"
    unfolding Bulk_insert_def by (blast dest: operation_starts_with_creation)
  have e: "Bulk_update c obj es w = Some (r, w') \<longrightarrow>
      (\<exists>rest. events_since w w' = Request (creation_request ''update'' obj JNull) # rest)"
    unfolding Bulk_update_def by (blast dest: operation_starts_with_creation)
  have f: "Bulk_delete c obj ids w = Some (r, w') \<longrightarrow>
      (\<exists>rest. events_since w w' = Request (creation_request ''delete'' obj JNull) # rest)"
    unfolding Bulk_delete_def by (blast dest: operation_starts_with_creation)
  have g: "Bulk_upsert c obj es None w = Some (r, w') \<longrightarrow>
      (\<exists>rest. events_since w w' =
         Request (creation_request ''upsert'' obj (JString ''Id'')) # rest)"
    unfolding Bulk_upsert_def using operation_starts_with_creation by fastforce
  have h: "Bulk_upsert c obj es (Some f) w = Some (r, w') \<longrightarrow>
      (\<exists>rest. events_since w w' = Request (creation_request ''upsert'' obj f) # rest)"
    unfolding Bulk_upsert_def using operation_starts_with_creation by fastforce
  show ?thesis
    using a b c d e f g h by (simp add: creation_request_def)
qed

lemma example_creation:
  "rest_request (creation_request op obj x) (example_world ds f s tr) =
     (Inr [(''id'', JString ''750'')],
      example_world ds f s (tr @ [Request (creation_request op obj x)]))"
  by (simp add: rest_request_def connection_request_def example_world_def example_remote_def
      creation_request_def response_json_def)

theorem job_creation_request_witness:
  "create_job ''upsert'' ''Account'' (JString ''Id'')
     (example_world [descriptor ''Open'', descriptor ''UploadComplete'', descriptor ''JobComplete'']
        example_failed_csv example_successful_csv []) =
     (Inr \<lparr>path = ''jobs/ingest/750'', job_id = ''750''\<rparr>,
      example_world [descriptor ''Open'', descriptor ''UploadComplete'', descriptor ''JobComplete'']
        example_failed_csv example_successful_csv
        [Request \<lparr>verb = POST, url = ''jobs/ingest'',
           json_body = Some [(''columnDelimiter'', JString ''COMMA''),
                             (''contentType'', JString ''CSV''),
                             (''lineEnding'', JString ''LF''),
                             (''object'', JString ''Account''),
                             (''operation'', JString ''upsert''),
                             (''externalIdFieldName'', JString ''Id'')],
           data = None, headers = []\<rparr>]) \<and>
   (\<exists>r w'. Bulk_insert spec_settings ''Account'' [[(''Id'', ''a'')], [(''Id'', ''b'')]]
        (example_world [descriptor ''Open'', descriptor ''UploadComplete'', descriptor ''JobComplete'']
           example_failed_csv example_successful_csv []) = Some (r, w') \<and>
      hd (trace w') = Request (creation_request ''insert'' ''Account'' JNull)) \<and>
   (\<exists>r w'. Bulk_update spec_settings ''Account'' [[(''Id'', ''a'')], [(''Id'', ''b'')]]
        (example_world [descriptor ''Open'', descriptor ''UploadComplete'', descriptor ''JobComplete'']
           example_failed_csv example_successful_csv []) = Some (r, w') \<and>
      hd (trace w') = Request (creation_request ''update'' ''Account'' JNull)) \<and>
   (\<exists>r w'. Bulk_delete spec_settings ''Account'' [''a'', ''b'']
        (example_world [descriptor ''Open'', descriptor ''UploadComplete'', descriptor ''JobComplete'']
           example_failed_csv example_successful_csv []) = Some (r, w') \<and>
      hd (trace w') = Request (creation_request ''delete'' ''Account'' JNull)) \<and>
   (\<exists>r w'. Bulk_upsert spec_settings ''Account'' [[(''Id'', ''a'')], [(''Id'', ''b'')]] None
        (example_world [descriptor ''Open'', descriptor ''UploadComplete'', descriptor ''JobComplete'']
           example_failed_csv example_successful_csv []) = Some (r, w') \<and>
      hd (trace w') = Request (creation_request ''upsert'' ''Account'' (JString ''Id''))) \<and>
   (\<exists>r w'. Bulk_upsert spec_settings ''Account'' [[(''Id'', ''a'')], [(''Id'', ''b'')]]
        (Some (JString ''Ext__c''))
        (example_world [descriptor ''Open'', descriptor ''UploadComplete'', descriptor ''JobComplete'']
           example_failed_csv example_successful_csv []) = Some (r, w') \<and>
      hd (trace w') = Request (creation_request ''upsert'' ''Account'' (JString ''Ext__c'')))"
proof -
  let ?ds = "[descriptor ''Open'', descriptor ''UploadComplete'', descriptor ''JobComplete'']"
  let ?W = "example_world ?ds example_failed_csv example_successful_csv"
  let ?es = "[[(''Id'', ''a'')], [(''Id'', ''b'')]]"
  let ?R = "Inr [FailResultRecord ''001'' ''BAD'', SuccessResultRecord ''002'']"
  let ?d = "''Id'' @ [CHR 0x0A] @ ''a'' @ [CHR 0x0A] @ ''b'' @ [CHR 0x0A]"
  let ?F = "\<lambda>op x. ?W [Request (creation_request op ''Account'' x),
         Request (batch_request example_job ?d),
         Request (state_request example_job ''UploadComplete''),
         Request (status_request example_job), Sleep 5,
         Request (status_request example_job), Sleep 5,
         Request (status_request example_job), Request (status_request example_job),
         Request (results_request example_job ''failedResults''),
         Request (results_request example_job ''successfulResults'')]"
  have run: "execute_operation spec_settings op ''Account'' ?es x (?W []) = Some (?R, ?F op x)"
    for op x
    by (rule example_operation [OF example_encoding])
  have t0: "trace (?W t) = t" for t by (simp add: example_world_def)
  have ev: "events_since (?W []) w' = trace w'" for w'
    by (simp add: events_since_def t0)
  note T = job_creation_request [where c = spec_settings and obj = "''Account''" and es = ?es
      and ids = "[''a'', ''b'']" and w = "?W []" and r = ?R]
  have 1: "create_job ''upsert'' ''Account'' (JString ''Id'') (?W []) =
     (Inr \<lparr>path = ''jobs/ingest/750'', job_id = ''750''\<rparr>,
      ?W [Request (creation_request ''upsert'' ''Account'' (JString ''Id''))])"
    using T [where op = "''upsert''" and x = "JString ''Id''" and i = "''750''"
        and result = "[(''id'', JString ''750'')]"
        and ?w1.0 = "?W [Request (creation_request ''upsert'' ''Account'' (JString ''Id''))]"
        and w' = "?F ''insert'' JNull"]
      example_creation [of "''upsert''" "''Account''" "JString ''Id''" ?ds example_failed_csv
        example_successful_csv "[]"]
    by (simp add: dict_get_def)
  note U = T [where op = "''insert''" and x = JNull and result = "[]" and ?w1.0 = "?W []"
      and i = "[]"]
  have h: "hd (trace w') = e" if "\<exists>rest. events_since (?W []) w' = e # rest" for w' e
    using that by (auto simp add: ev)
  have 2: "hd (trace (?F ''insert'' JNull)) = Request (creation_request ''insert'' ''Account'' JNull)"
  proof (rule h)
    from U [where w' = "?F ''insert'' JNull" and f = JNull]
    have "Bulk_insert spec_settings ''Account'' ?es (?W []) = Some (?R, ?F ''insert'' JNull) \<longrightarrow>
      (\<exists>rest. events_since (?W []) (?F ''insert'' JNull) =
         Request (creation_request ''insert'' ''Account'' JNull) # rest)"
      by (elim conjE)
    with run [of "''insert''" JNull]
    show "\<exists>rest. events_since (?W []) (?F ''insert'' JNull) =
         Request (creation_request ''insert'' ''Account'' JNull) # rest"
      by (simp only: Bulk_insert_def)
  qed
  have 3: "hd (trace (?F ''update'' JNull)) = Request (creation_request ''update'' ''Account'' JNull)"
  proof (rule h)
    from U [where w' = "?F ''update'' JNull" and f = JNull]
    have "Bulk_update spec_settings ''Account'' ?es (?W []) = Some (?R, ?F ''update'' JNull) \<longrightarrow>
      (\<exists>rest. events_since (?W []) (?F ''update'' JNull) =
         Request (creation_request ''update'' ''Account'' JNull) # rest)"
      by (elim conjE)
    with run [of "''update''" JNull]
    show "\<exists>rest. events_since (?W []) (?F ''update'' JNull) =
         Request (creation_request ''update'' ''Account'' JNull) # rest"
      by (simp only: Bulk_update_def)
  qed
  have ids: "map (\<lambda>i. [(''Id'', i)]) [''a'', ''b''] = ?es" by simp
  have 4: "hd (trace (?F ''delete'' JNull)) = Request (creation_request ''delete'' ''Account'' JNull)"
  proof (rule h)
    from U [where w' = "?F ''delete'' JNull" and f = JNull]
    have "Bulk_delete spec_settings ''Account'' [''a'', ''b''] (?W []) =
        Some (?R, ?F ''delete'' JNull) \<longrightarrow>
      (\<exists>rest. events_since (?W []) (?F ''delete'' JNull) =
         Request (creation_request ''delete'' ''Account'' JNull) # rest)"
      by (elim conjE)
    with run [of "''delete''" JNull]
    show "\<exists>rest. events_since (?W []) (?F ''delete'' JNull) =
         Request (creation_request ''delete'' ''Account'' JNull) # rest"
      by (simp only: Bulk_delete_def ids)
  qed
  have 5: "hd (trace (?F ''upsert'' (JString ''Id''))) =
      Request (creation_request ''upsert'' ''Account'' (JString ''Id''))"
  proof (rule h)
    from U [where w' = "?F ''upsert'' (JString ''Id'')" and f = JNull]
    have "Bulk_upsert spec_settings ''Account'' ?es None (?W []) =
        Some (?R, ?F ''upsert'' (JString ''Id'')) \<longrightarrow>
      (\<exists>rest. events_since (?W []) (?F ''upsert'' (JString ''Id'')) =
         Request (creation_request ''upsert'' ''Account'' (JString ''Id'')) # rest)"
      by (elim conjE)
    with run [of "''upsert''" "JString ''Id''"]
    show "\<exists>rest. events_since (?W []) (?F ''upsert'' (JString ''Id'')) =
         Request (creation_request ''upsert'' ''Account'' (JString ''Id'')) # rest"
      by (simp only: Bulk_upsert_def option.case)
  qed
  have 6: "hd (trace (?F ''upsert'' (JString ''Ext__c''))) =
      Request (creation_request ''upsert'' ''Account'' (JString ''Ext__c''))"
  proof (rule h)
    from U [where w' = "?F ''upsert'' (JString ''Ext__c'')" and f = "JString ''Ext__c''"]
    have "Bulk_upsert spec_settings ''Account'' ?es (Some (JString ''Ext__c'')) (?W []) =
        Some (?R, ?F ''upsert'' (JString ''Ext__c'')) \<longrightarrow>
      (\<exists>rest. events_since (?W []) (?F ''upsert'' (JString ''Ext__c'')) =
         Request (creation_request ''upsert'' ''Account'' (JString ''Ext__c'')) # rest)"
      by (elim conjE)
    with run [of "''upsert''" "JString ''Ext__c''"]
    show "\<exists>rest. events_since (?W []) (?F ''upsert'' (JString ''Ext__c'')) =
         Request (creation_request ''upsert'' ''Account'' (JString ''Ext__c'')) # rest"
      by (simp only: Bulk_upsert_def option.case)
  qed
  have c: "Bulk_insert spec_settings ''Account'' ?es (?W []) = Some (?R, ?F ''insert'' JNull)"
    "Bulk_update spec_settings ''Account'' ?es (?W []) = Some (?R, ?F ''update'' JNull)"
    "Bulk_delete spec_settings ''Account'' [''a'', ''b''] (?W []) = Some (?R, ?F ''delete'' JNull)"
    "Bulk_upsert spec_settings ''Account'' ?es None (?W []) =
       Some (?R, ?F ''upsert'' (JString ''Id''))"
    "Bulk_upsert spec_settings ''Account'' ?es (Some (JString ''Ext__c'')) (?W []) =
       Some (?R, ?F ''upsert'' (JString ''Ext__c''))"
    by (simp_all only: Bulk_insert_def Bulk_update_def Bulk_delete_def Bulk_upsert_def
        option.case ids run)
  have k: "create_job ''upsert'' ''Account'' (JString ''Id'') (?W []) =
     (Inr \<lparr>path = ''jobs/ingest/750'', job_id = ''750''\<rparr>,
      ?W [Request \<lparr>verb = POST, url = ''jobs/ingest'',
           json_body = Some [(''columnDelimiter'', JString ''COMMA''),
                             (''contentType'', JString ''CSV''),
                             (''lineEnding'', JString ''LF''),
                             (''object'', JString ''Account''),
                             (''operation'', JString ''upsert''),
                             (''externalIdFieldName'', JString ''Id'')],
           data = None, headers = []\<rparr>])"
    using 1 by (simp add: creation_request_def)
  show ?thesis
    apply (intro conjI)
         apply (rule k)
        apply (rule exI, rule exI, rule conjI, rule c(1), rule 2)
       apply (rule exI, rule exI, rule conjI, rule c(2), rule 3)
      apply (rule exI, rule exI, rule conjI, rule c(3), rule 4)
     apply (rule exI, rule exI, rule conjI, rule c(4), rule 5)
    apply (rule exI, rule exI, rule conjI, rule c(5), rule 6)
    done
qed

end
